theory Spec2Isabelle
  imports Main "HOL-Library.List_Lexorder" "HOL-Library.AList" "HOL-Library.Sublist"
    "HOL-Library.Word"
begin

section \<open>Python values used by bibtex\_loader.py\<close>

text \<open>
  A Python \<open>str\<close> is a sequence of Unicode code points; \<open>len\<close> counts code points.
  It is modelled as a list of code points, so that the one-character markers
  (bullet, dagger, ...) have length one, as they do in the program.
  \<open>str\<close> turns an ASCII literal into such a sequence.
\<close>

type_synonym pystr = "nat list"

definition str :: "string \<Rightarrow> pystr" where
  "str s = map of_char s"

text \<open>The exceptions the modelled code can raise; all are subclasses of \<open>Exception\<close>.\<close>

datatype exn = IndexError | ValueError | TypeError | KeyError | AttributeError
  | OSError | UnicodeDecodeError | JSONDecodeError

text \<open>\<open>xs[i]\<close>: a negative index counts from the end, an index out of range raises.\<close>

definition py_index :: "'a list \<Rightarrow> int \<Rightarrow> exn + 'a" where
  "py_index xs i =
     (if 0 \<le> i \<and> i < int (length xs) then Inr (xs ! nat i)
      else if i < 0 \<and> - int (length xs) \<le> i then Inr (xs ! nat (int (length xs) + i))
      else Inl IndexError)"

text \<open>\<open>chr(i)\<close> raises \<open>ValueError\<close> outside \<open>range(0x110000)\<close>.\<close>

definition py_chr :: "int \<Rightarrow> exn + pystr" where
  "py_chr i = (if 0 \<le> i \<and> i < 1114112 then Inr [nat i] else Inl ValueError)"

text \<open>The decimal numeral of an integer, as an f-string prints it.\<close>

fun str_nat :: "nat \<Rightarrow> pystr" where
  "str_nat n = (if n < 10 then [48 + n] else str_nat (n div 10) @ [48 + n mod 10])"

declare str_nat.simps [simp del]

definition str_int :: "int \<Rightarrow> pystr" where
  "str_int i = (if i < 0 then str ''-'' @ str_nat (nat (- i)) else str_nat (nat i))"

section \<open>Options\<close>

text \<open>
  The command-line options the pipeline reads through \<open>self.options\<close>; they are
  passed explicitly.
\<close>

record options =
  format :: pystr
  numbering_style :: pystr
  sort_order :: pystr
  hanging_indent :: bool
  indent_size :: int
  show_title :: bool
  title_text :: pystr

section \<open>Numbering markers\<close>

definition symbols :: "pystr list" where
  "symbols = [str ''*'', [8224], [8225], [167], [182], [8214], str ''**'',
              [8224, 8224], [8225, 8225]]"

definition roman_numerals :: "pystr list" where
  "roman_numerals = map str
     [''i'', ''ii'', ''iii'', ''iv'', ''v'', ''vi'', ''vii'', ''viii'', ''ix'', ''x'',
      ''xi'', ''xii'', ''xiii'', ''xiv'', ''xv'', ''xvi'', ''xvii'', ''xviii'', ''xix'', ''xx'']"

definition bracketed :: "int \<Rightarrow> pystr" where
  "bracketed index = str ''['' @ str_int index @ str '']''"

definition get_numbering_marker :: "pystr \<Rightarrow> int \<Rightarrow> exn + pystr" where
  "get_numbering_marker style index =
     (if style = str ''numeric'' then Inr (bracketed index)
      else if style = str ''numeric_dot'' then Inr (str_int index @ str ''.'')
      else if style = str ''numeric_paren'' then Inr (str ''('' @ str_int index @ str '')'')
      else if style = str ''bullet'' then Inr [8226]
      else if style = str ''dash'' then Inr [8211]
      else if style = str ''asterisk'' then Inr (str ''*'')
      else if style = str ''symbols'' then
        (if index - 1 < int (length symbols) then py_index symbols (index - 1)
         else Inr (bracketed index))
      else if style = str ''alpha'' then
        (if index \<le> 26 then
           (case py_chr (96 + index) of Inl e \<Rightarrow> Inl e | Inr c \<Rightarrow> Inr (c @ str ''.''))
         else Inr (bracketed index))
      else if style = str ''roman'' then
        (if index - 1 < int (length roman_numerals) then
           (case py_index roman_numerals (index - 1) of
              Inl e \<Rightarrow> Inl e | Inr r \<Rightarrow> Inr (r @ str ''.''))
         else Inr (bracketed index))
      else if style = str ''none'' then Inr []
      else Inr (bracketed index))"

text \<open>
  The reading of "lowercase roman numeral" used to state the claim about the roman
  style: the usual subtractive notation, written independently of the program's table.
\<close>

fun roman_spec :: "nat \<Rightarrow> string" where
  "roman_spec n =
     (if 10 \<le> n then ''x'' @ roman_spec (n - 10)
      else if n = 9 then ''ix''
      else if 5 \<le> n then ''v'' @ roman_spec (n - 5)
      else if n = 4 then ''iv''
      else if 1 \<le> n then ''i'' @ roman_spec (n - 1)
      else '''')"

declare roman_spec.simps [simp del]

definition alphabet :: string where
  "alphabet = ''abcdefghijklmnopqrstuvwxyz''"

definition numbering_styles :: "pystr list" where
  "numbering_styles = map str
     [''numeric'', ''numeric_dot'', ''numeric_paren'', ''bullet'', ''dash'', ''asterisk'',
      ''symbols'', ''alpha'', ''roman'', ''none'']"

section \<open>String operations\<close>

text \<open>
  The characters \<open>str.split()\<close>, \<open>str.strip()\<close> and the regular expression
  \<open>\s\<close> take for white space (CPython's \<open>Py_UNICODE_ISSPACE\<close>).
\<close>

definition is_space :: "nat \<Rightarrow> bool" where
  "is_space c \<longleftrightarrow>
     (9 \<le> c \<and> c \<le> 13) \<or> (28 \<le> c \<and> c \<le> 32) \<or> c = 133 \<or> c = 160 \<or> c = 5760
     \<or> (8192 \<le> c \<and> c \<le> 8202) \<or> c = 8232 \<or> c = 8233 \<or> c = 8239 \<or> c = 8287
     \<or> c = 12288"

text \<open>\<open>s.split()\<close>: the maximal runs of characters that are not white space.\<close>

fun split_from :: "pystr \<Rightarrow> pystr \<Rightarrow> pystr list" where
  "split_from cur [] = (if cur = [] then [] else [cur])"
| "split_from cur (c # cs) =
     (if is_space c then (if cur = [] then split_from [] cs else cur # split_from [] cs)
      else split_from (cur @ [c]) cs)"

definition py_split :: "pystr \<Rightarrow> pystr list" where
  "py_split s = split_from [] s"

text \<open>\<open>sep.join(xs)\<close>.\<close>

fun py_join :: "pystr \<Rightarrow> pystr list \<Rightarrow> pystr" where
  "py_join sep [] = []"
| "py_join sep [x] = x"
| "py_join sep (x # y # ys) = x @ sep @ py_join sep (y # ys)"

section \<open>Wrapping\<close>

text \<open>The variables of the loop of \<open>wrap_text\<close>.\<close>

record wrap_state =
  lines :: "pystr list"
  current_line :: "pystr list"
  current_length :: int
  is_first_line :: bool

definition wrap_step :: "int \<Rightarrow> int \<Rightarrow> wrap_state \<Rightarrow> pystr \<Rightarrow> wrap_state" where
  "wrap_step first_line_max subsequent_max st word =
     (let word_length = int (length word);
          max_line_length = (if is_first_line st then first_line_max else subsequent_max)
      in if current_length st + word_length + int (length (current_line st)) \<le> max_line_length
         then st\<lparr>current_line := current_line st @ [word],
                 current_length := current_length st + word_length\<rparr>
         else (if current_line st \<noteq> []
               then st\<lparr>lines := lines st @ [py_join (str '' '') (current_line st)],
                       is_first_line := False\<rparr>
               else st)\<lparr>current_line := [word], current_length := word_length\<rparr>)"

fun wrap_loop :: "int \<Rightarrow> int \<Rightarrow> wrap_state \<Rightarrow> pystr list \<Rightarrow> wrap_state" where
  "wrap_loop first_line_max subsequent_max st [] = st"
| "wrap_loop first_line_max subsequent_max st (word # words) =
     wrap_loop first_line_max subsequent_max
       (wrap_step first_line_max subsequent_max st word) words"

text \<open>The lines of a state once the pending line is appended, as after the loop.\<close>

definition flush :: "wrap_state \<Rightarrow> pystr list" where
  "flush st =
     (if current_line st \<noteq> [] then lines st @ [py_join (str '' '') (current_line st)]
      else lines st)"

definition wrap_text :: "pystr \<Rightarrow> int \<Rightarrow> int \<Rightarrow> int \<Rightarrow> pystr list" where
  "wrap_text text max_width_chars first_line_indent subsequent_indent =
     flush (wrap_loop (max_width_chars - first_line_indent) (max_width_chars - subsequent_indent)
       \<lparr>lines = [], current_line = [], current_length = 0, is_first_line = True\<rparr>
       (py_split text))"

text \<open>What holds of the loop's variables at every iteration.\<close>

definition wrap_inv :: "wrap_state \<Rightarrow> bool" where
  "wrap_inv st \<longleftrightarrow>
     (current_line st = [] \<longrightarrow> lines st = [] \<and> current_length st = 0)
     \<and> (current_line st \<noteq> [] \<longrightarrow>
          int (length (py_join (str '' '') (current_line st))) =
            current_length st + int (length (current_line st)) - 1)"

text \<open>A line is within the width, or is one token that is longer than the width.\<close>

definition line_ok :: "int \<Rightarrow> pystr set \<Rightarrow> pystr \<Rightarrow> bool" where
  "line_ok W tokens line \<longleftrightarrow> int (length line) \<le> W \<or> (line \<in> tokens \<and> W < int (length line))"

definition width_inv :: "int \<Rightarrow> pystr set \<Rightarrow> wrap_state \<Rightarrow> bool" where
  "width_inv W tokens st \<longleftrightarrow>
     (\<forall>l \<in> set (lines st). line_ok W tokens l)
     \<and> (current_line st \<noteq> [] \<longrightarrow> line_ok W tokens (py_join (str '' '') (current_line st)))"

section \<open>Entries\<close>

text \<open>
  The values \<open>json.load\<close> returns: \<open>None\<close>, booleans, integers, floats (the 64 bits
  of the double; no modelled operation looks into them), strings, lists, and
  dictionaries with string keys in insertion order.
\<close>

datatype pyval = PNone | PBool bool | PInt int | PFloat "64 word" | PStr pystr
  | PList "pyval list" | PDict "(pystr \<times> pyval) list"

text \<open>
  A dictionary is the list of its items in insertion order: \<open>k in d\<close> and \<open>d.get\<close>
  look the key up with \<open>map_of\<close>, and \<open>d[k] = v\<close> is \<open>AList.update\<close>, which
  overwrites in place or appends.
\<close>

type_synonym 'v dict = "(pystr \<times> 'v) list"

definition dict_has :: "'v dict \<Rightarrow> pystr \<Rightarrow> bool" where
  "dict_has d k \<longleftrightarrow> map_of d k \<noteq> None"

definition dict_get :: "'v dict \<Rightarrow> pystr \<Rightarrow> 'v \<Rightarrow> 'v" where
  "dict_get d k dflt = (case map_of d k of None \<Rightarrow> dflt | Some v \<Rightarrow> v)"

definition dict_set :: "'v dict \<Rightarrow> pystr \<Rightarrow> 'v \<Rightarrow> 'v dict" where
  "dict_set d k v = AList.update k v d"

text \<open>
  An entry is the dictionary \<open>{'type': ..., 'key': ..., 'fields': {...}}\<close>. The values
  of the fields are always strings; the type and the key are strings except when
  \<open>parse_json\<close> copies them from the decoded JSON, where they can be any value.
\<close>

record entry =
  etype :: pyval
  ekey :: pyval
  efields :: "pystr dict"

section \<open>Sorting\<close>

text \<open>
  \<open>s.lower()\<close>. The mapping is the program's on ASCII and on Latin-1; the Unicode
  case tables beyond U+00FF are not reproduced, and such a character is left as it is.
\<close>

definition lower_char :: "nat \<Rightarrow> nat" where
  "lower_char c =
     (if (65 \<le> c \<and> c \<le> 90) \<or> (192 \<le> c \<and> c \<le> 222 \<and> c \<noteq> 215) then c + 32 else c)"

definition py_lower :: "pystr \<Rightarrow> pystr" where
  "py_lower s = map lower_char s"

text \<open>The three \<open>key\<close> functions of \<open>sort_entries\<close>.\<close>

definition author_key :: "entry \<Rightarrow> pystr" where
  "author_key x = py_lower (dict_get (efields x) (str ''author'') (str ''''))"

definition year_key :: "entry \<Rightarrow> pystr" where
  "year_key x = dict_get (efields x) (str ''year'') (str ''9999'')"

definition title_key :: "entry \<Rightarrow> pystr" where
  "title_key x = py_lower (dict_get (efields x) (str ''title'') (str ''''))"

text \<open>
  \<open>sorted(entries, key=...)\<close> is a stable sort in ascending order of the keys, and
  strings compare lexicographically by code point; \<open>sort_key\<close> on lists of code
  points is that.
\<close>

definition sort_entries :: "options \<Rightarrow> entry list \<Rightarrow> entry list" where
  "sort_entries opts entries =
     (if sort_order opts = str ''author'' then sort_key author_key entries
      else if sort_order opts = str ''year'' then sort_key year_key entries
      else if sort_order opts = str ''title'' then sort_key title_key entries
      else entries)"

text \<open>The defaults of \<open>add_arguments\<close>.\<close>

definition default_options :: options where
  "default_options =
     \<lparr>format = str ''apa'', numbering_style = str ''numeric'', sort_order = str ''appearance'',
      hanging_indent = True, indent_size = 20, show_title = True,
      title_text = str ''References''\<rparr>"

text \<open>An entry of type article written with literals, for the examples.\<close>

definition article :: "string \<Rightarrow> (string \<times> string) list \<Rightarrow> entry" where
  "article k fs =
     \<lparr>etype = PStr (str ''article''), ekey = PStr (str k),
      efields = map (\<lambda>(a, b). (str a, str b)) fs\<rparr>"

section \<open>More string operations\<close>

text \<open>\<open>s.strip()\<close>: the string without its leading and trailing white space.\<close>

definition py_strip :: "pystr \<Rightarrow> pystr" where
  "py_strip s = rev (dropWhile is_space (rev (dropWhile is_space s)))"

text \<open>
  \<open>s.replace(old, new)\<close> and \<open>s.split(sep)\<close> for a separator that is not
  empty, as every separator of the program is: the occurrences are taken from left to
  right and do not overlap.
\<close>

function py_replace :: "pystr \<Rightarrow> pystr \<Rightarrow> pystr \<Rightarrow> pystr" where
  "py_replace old new [] = []"
| "py_replace old new (c # cs) =
     (if old \<noteq> [] \<and> prefix old (c # cs)
      then new @ py_replace old new (drop (length old) (c # cs))
      else c # py_replace old new cs)"
  by pat_completeness auto
termination
  by (relation "measure (\<lambda>(old, new, s). length s)") auto

function split_sep_from :: "pystr \<Rightarrow> pystr \<Rightarrow> pystr \<Rightarrow> pystr list" where
  "split_sep_from sep cur [] = [cur]"
| "split_sep_from sep cur (c # cs) =
     (if sep \<noteq> [] \<and> prefix sep (c # cs)
      then cur # split_sep_from sep [] (drop (length sep) (c # cs))
      else split_sep_from sep (cur @ [c]) cs)"
  by pat_completeness auto
termination
  by (relation "measure (\<lambda>(sep, cur, s). length s)") auto

definition py_split_sep :: "pystr \<Rightarrow> pystr \<Rightarrow> pystr list" where
  "py_split_sep s sep = split_sep_from sep [] s"

section \<open>Author names\<close>

text \<open>The list of authors that \<open>format_authors\<close> takes from the author field.\<close>

definition author_list :: "pystr \<Rightarrow> pystr list" where
  "author_list author_str =
     filter (\<lambda>a. a \<noteq> [])
       (map py_strip (py_split_sep (py_replace (str '' and '') (str '', '') author_str) (str '','')))"

text \<open>\<open>[p[0] for p in parts[:-1] if p]\<close>.\<close>

definition initials_of :: "pystr list \<Rightarrow> pystr list" where
  "initials_of parts = map (\<lambda>p. [hd p]) (filter (\<lambda>p. p \<noteq> []) (butlast parts))"

text \<open>The body of the loop of the apa, apa7, chicago and harvard branch.\<close>

definition apa_name :: "pystr \<Rightarrow> pystr" where
  "apa_name author =
     (let parts = py_split author
      in if length parts > 1
         then last parts @ str '', '' @ (py_join (str ''. '') (initials_of parts) @ str ''.'')
         else author)"

text \<open>The body of the loop of the ieee, vancouver and nature branch.\<close>

definition ieee_name :: "pystr \<Rightarrow> pystr" where
  "ieee_name author =
     (let parts = py_split author
      in if length parts > 1
         then last parts @ str '' '' @ py_join [] (initials_of parts)
         else author)"

definition format_authors :: "pystr \<Rightarrow> pystr \<Rightarrow> exn + pystr" where
  "format_authors author_str style =
     (if author_str = [] then Inr []
      else
        let authors = author_list author_str
        in if style \<in> set (map str [''apa'', ''apa7'', ''chicago'', ''harvard'']) then
             (let formatted = map apa_name authors
              in if length formatted > 2
                 then Inr (py_join (str '', '') (butlast formatted) @ str '', & '' @ last formatted)
                 else if length formatted = 2
                 then Inr (formatted ! 0 @ str '' & '' @ formatted ! 1)
                 else Inr (if formatted \<noteq> [] then formatted ! 0 else []))
           else if style = str ''mla'' then
             (if length authors > 1
              then (case py_index authors 0 of
                      Inl e \<Rightarrow> Inl e | Inr a \<Rightarrow> Inr (a @ str '', et al.''))
              else py_index authors 0)
           else if style \<in> set (map str [''ieee'', ''vancouver'', ''nature'']) then
             (let formatted = map ieee_name (take 6 authors)
              in if length authors > 6
                 then Inr (py_join (str '', '') formatted @ str '', et al.'')
                 else Inr (py_join (str '', '') formatted))
           else Inr (py_join (str '', '') authors))"

section \<open>Citation styles\<close>

text \<open>
  \<open>if k in fields: s += f(fields[k])\<close> adds to a string, and
  \<open>if k in flds: parts.append(f(flds[k]))\<close> adds a part.
\<close>

definition added :: "pystr dict \<Rightarrow> pystr \<Rightarrow> (pystr \<Rightarrow> pystr) \<Rightarrow> pystr" where
  "added flds k f = (case map_of flds k of None \<Rightarrow> [] | Some v \<Rightarrow> f v)"

definition part :: "pystr dict \<Rightarrow> pystr \<Rightarrow> (pystr \<Rightarrow> pystr) \<Rightarrow> pystr list" where
  "part flds k f = (case map_of flds k of None \<Rightarrow> [] | Some v \<Rightarrow> [f v])"

text \<open>The double quote of the quoted titles.\<close>

definition dquote :: pystr where
  "dquote = [34]"

definition is_article :: "pyval \<Rightarrow> bool" where
  "is_article entry_type \<longleftrightarrow> entry_type = PStr (str ''article'')"

definition format_apa :: "pyval \<Rightarrow> pystr \<Rightarrow> pystr \<Rightarrow> pystr \<Rightarrow> pystr dict \<Rightarrow> pystr" where
  "format_apa entry_type authors year title flds =
     py_join (str '' '')
       ((if authors \<noteq> [] then [authors @ str '' ('' @ year @ str '').'']
         else [str ''('' @ year @ str '').''])
        @ (if is_article entry_type then
             [title @ str ''.'']
             @ part flds (str ''journal'') (\<lambda>journal.
                 journal
                 @ added flds (str ''volume'') (\<lambda>v. str '', '' @ v)
                 @ added flds (str ''number'') (\<lambda>v. str ''('' @ v @ str '')'')
                 @ added flds (str ''pages'') (\<lambda>v. str '', '' @ v)
                 @ str ''.'')
           else
             [title @ str ''.'']
             @ part flds (str ''publisher'') (\<lambda>v. v @ str ''.'')))"

definition format_mla :: "pyval \<Rightarrow> pystr \<Rightarrow> pystr \<Rightarrow> pystr \<Rightarrow> pystr dict \<Rightarrow> pystr" where
  "format_mla entry_type authors year title flds =
     py_join (str '' '')
       ((if authors \<noteq> [] then [authors @ str ''.''] else [])
        @ [dquote @ title @ str ''.'' @ dquote]
        @ (if is_article entry_type \<and> dict_has flds (str ''journal'') then
             part flds (str ''journal'') (\<lambda>v. v @ str '','')
             @ part flds (str ''volume'') (\<lambda>v. str ''vol. '' @ v @ str '','')
             @ part flds (str ''number'') (\<lambda>v. str ''no. '' @ v @ str '','')
             @ [year @ str '','']
             @ part flds (str ''pages'') (\<lambda>v. str ''pp. '' @ v @ str ''.'')
           else
             part flds (str ''publisher'') (\<lambda>v. v @ str '', '' @ year @ str ''.'')))"

definition format_chicago :: "pyval \<Rightarrow> pystr \<Rightarrow> pystr \<Rightarrow> pystr \<Rightarrow> pystr dict \<Rightarrow> pystr" where
  "format_chicago entry_type authors year title flds =
     py_join (str '' '')
       ((if authors \<noteq> [] then [authors @ str ''.''] else [])
        @ [year @ str ''. '' @ dquote @ title @ str ''.'' @ dquote]
        @ (if is_article entry_type \<and> dict_has flds (str ''journal'') then
             part flds (str ''journal'') (\<lambda>journal.
               journal
               @ added flds (str ''volume'') (\<lambda>v. str '' '' @ v)
               @ added flds (str ''number'') (\<lambda>v. str '', no. '' @ v)
               @ added flds (str ''pages'') (\<lambda>v. str '': '' @ v)
               @ str ''.'')
           else
             part flds (str ''publisher'') (\<lambda>v. v @ str ''.'')))"

definition format_harvard :: "pyval \<Rightarrow> pystr \<Rightarrow> pystr \<Rightarrow> pystr \<Rightarrow> pystr dict \<Rightarrow> pystr" where
  "format_harvard entry_type authors year title flds =
     format_apa entry_type authors year title flds"

definition format_ieee :: "pyval \<Rightarrow> pystr \<Rightarrow> pystr \<Rightarrow> pystr \<Rightarrow> pystr dict \<Rightarrow> pystr" where
  "format_ieee entry_type authors year title flds =
     py_join (str '' '')
       ((if authors \<noteq> [] then [authors @ str '',''] else [])
        @ [dquote @ title @ str '','' @ dquote]
        @ (if is_article entry_type \<and> dict_has flds (str ''journal'') then
             part flds (str ''journal'') (\<lambda>journal.
               journal
               @ added flds (str ''volume'') (\<lambda>v. str '', vol. '' @ v)
               @ added flds (str ''number'') (\<lambda>v. str '', no. '' @ v)
               @ added flds (str ''pages'') (\<lambda>v. str '', pp. '' @ v)
               @ (str '', '' @ year @ str ''.''))
           else
             part flds (str ''publisher'') (\<lambda>v. v @ str '', '' @ year @ str ''.'')))"

text \<open>
  The volume part of the vancouver and ama styles: the number and the pages are
  printed only inside the test for the volume.
\<close>

definition volume_part :: "pystr dict \<Rightarrow> pystr list" where
  "volume_part flds =
     part flds (str ''volume'') (\<lambda>volume.
       volume
       @ added flds (str ''number'') (\<lambda>v. str ''('' @ v @ str '')'')
       @ added flds (str ''pages'') (\<lambda>v. str '':'' @ v)
       @ str ''.'')"

definition format_vancouver :: "pyval \<Rightarrow> pystr \<Rightarrow> pystr \<Rightarrow> pystr \<Rightarrow> pystr dict \<Rightarrow> pystr" where
  "format_vancouver entry_type authors year title flds =
     py_join (str '' '')
       ((if authors \<noteq> [] then [authors @ str ''.''] else [])
        @ [title @ str ''.'']
        @ (if is_article entry_type \<and> dict_has flds (str ''journal'') then
             part flds (str ''journal'') (\<lambda>v. v @ str ''.'')
             @ (if dict_has flds (str ''year'')
                then [(if dict_has flds (str ''month'')
                       then year @ str '' '' @ dict_get flds (str ''month'') []
                       else year) @ str '';'']
                else [])
             @ volume_part flds
           else
             part flds (str ''publisher'') (\<lambda>v. v @ str ''; '' @ year @ str ''.'')))"

definition format_ama :: "pyval \<Rightarrow> pystr \<Rightarrow> pystr \<Rightarrow> pystr \<Rightarrow> pystr dict \<Rightarrow> pystr" where
  "format_ama entry_type authors year title flds =
     py_join (str '' '')
       ((if authors \<noteq> [] then [authors @ str ''.''] else [])
        @ [title @ str ''.'']
        @ (if is_article entry_type \<and> dict_has flds (str ''journal'') then
             part flds (str ''journal'') (\<lambda>v. v @ str ''.'')
             @ (if dict_has flds (str ''year'') then [year @ str '';''] else [])
             @ volume_part flds
           else
             part flds (str ''publisher'') (\<lambda>v. v @ str ''; '' @ year @ str ''.'')))"

definition format_acs :: "pyval \<Rightarrow> pystr \<Rightarrow> pystr \<Rightarrow> pystr \<Rightarrow> pystr dict \<Rightarrow> pystr" where
  "format_acs entry_type authors year title flds =
     py_join (str '' '')
       ((if authors \<noteq> [] then [authors @ str ''.''] else [])
        @ [title @ str ''.'']
        @ (if is_article entry_type \<and> dict_has flds (str ''journal'') then
             part flds (str ''journal'') (\<lambda>journal.
               journal
               @ (if dict_has flds (str ''year'') then str '' '' @ year else [])
               @ added flds (str ''volume'') (\<lambda>v. str '', '' @ v)
               @ added flds (str ''pages'') (\<lambda>v. str '', '' @ v)
               @ str ''.'')
           else
             part flds (str ''publisher'') (\<lambda>v. v @ str '': '' @ year @ str ''.'')))"

definition format_nature :: "pyval \<Rightarrow> pystr \<Rightarrow> pystr \<Rightarrow> pystr \<Rightarrow> pystr dict \<Rightarrow> pystr" where
  "format_nature entry_type authors year title flds =
     py_join (str '' '')
       ((if authors \<noteq> [] then [authors @ str ''.''] else [])
        @ [title @ str ''.'']
        @ (if is_article entry_type \<and> dict_has flds (str ''journal'') then
             part flds (str ''journal'') (\<lambda>journal.
               journal
               @ added flds (str ''volume'') (\<lambda>v. str '' '' @ v @ str '','')
               @ added flds (str ''pages'') (\<lambda>v. str '' '' @ v)
               @ (str '' ('' @ year @ str '')'')
               @ str ''.'')
           else
             part flds (str ''publisher'') (\<lambda>v.
               str ''('' @ v @ str '', '' @ year @ str '').'')))"

definition format_entry_python :: "entry \<Rightarrow> pystr \<Rightarrow> exn + pystr" where
  "format_entry_python entry style =
     (let flds = efields entry;
          entry_type = etype entry
      in case format_authors (dict_get flds (str ''author'') (str '''')) style of
           Inl e \<Rightarrow> Inl e
         | Inr authors \<Rightarrow>
             (let year = dict_get flds (str ''year'') (str ''n.d.'');
                  title = dict_get flds (str ''title'') (str '''')
              in if style = str ''apa'' \<or> style = str ''apa7'' then
                   Inr (format_apa entry_type authors year title flds)
                 else if style = str ''mla'' then
                   Inr (format_mla entry_type authors year title flds)
                 else if style = str ''chicago'' then
                   Inr (format_chicago entry_type authors year title flds)
                 else if style = str ''harvard'' then
                   Inr (format_harvard entry_type authors year title flds)
                 else if style = str ''ieee'' then
                   Inr (format_ieee entry_type authors year title flds)
                 else if style = str ''vancouver'' then
                   Inr (format_vancouver entry_type authors year title flds)
                 else if style = str ''ama'' then
                   Inr (format_ama entry_type authors year title flds)
                 else if style = str ''acs'' then
                   Inr (format_acs entry_type authors year title flds)
                 else if style = str ''nature'' then
                   Inr (format_nature entry_type authors year title flds)
                 else Inr (format_apa entry_type authors year title flds)))"

text \<open>
  \<open>format_with_python\<close>: an exception of \<open>format_entry_python\<close> is not caught, and a
  reference that is the empty string is left out.
\<close>

fun format_refs :: "pystr \<Rightarrow> pystr list \<Rightarrow> entry list \<Rightarrow> exn + pystr list" where
  "format_refs format_style refs [] = Inr refs"
| "format_refs format_style refs (entry # entries) =
     (case format_entry_python entry format_style of
        Inl e \<Rightarrow> Inl e
      | Inr formatted \<Rightarrow>
          format_refs format_style (if formatted \<noteq> [] then refs @ [formatted] else refs) entries)"

definition format_with_python :: "options \<Rightarrow> entry list \<Rightarrow> exn + pystr list" where
  "format_with_python opts entries = format_refs (format opts) [] entries"

text \<open>The style identifiers that \<open>format_entry_python\<close> tests for.\<close>

definition known_styles :: "pystr list" where
  "known_styles = map str
     [''apa'', ''apa7'', ''mla'', ''chicago'', ''harvard'', ''ieee'', ''vancouver'', ''ama'',
      ''acs'', ''nature'']"

text \<open>
  The rendering of an author in the ieee, vancouver and nature styles as the
  specification words it: the surname (the last token), a space, and the initials of
  the tokens before it, concatenated.
\<close>

definition surname_initials :: "pystr list \<Rightarrow> pystr" where
  "surname_initials tokens = last tokens @ str '' '' @ map hd (butlast tokens)"

section \<open>Layout of the references\<close>

text \<open>
  The dictionaries of \<open>all_lines\<close>; the title line has no \<open>is_first\<close> key.
\<close>

record layout_line =
  line_text :: pystr
  is_title :: bool
  is_first :: "bool option"
  indent :: int

text \<open>
  The first half of the body of the loop over the references: the marker, the text to
  wrap and the two indents.
\<close>

definition text_and_indents :: "options \<Rightarrow> int \<Rightarrow> int \<Rightarrow> pystr \<Rightarrow> exn + pystr \<times> int \<times> int" where
  "text_and_indents opts marker_chars i ref =
     (case get_numbering_marker (numbering_style opts) i of
        Inl e \<Rightarrow> Inl e
      | Inr marker \<Rightarrow>
          Inr (if marker \<noteq> [] then marker @ str '' '' @ ref else ref,
               if hanging_indent opts \<and> marker \<noteq> [] then (0, marker_chars) else (0, 0)))"

text \<open>The second half: the wrapped lines, each with its place.\<close>

definition place_lines :: "options \<Rightarrow> pystr list \<Rightarrow> layout_line list" where
  "place_lines opts wrapped_lines =
     map (\<lambda>(j, line).
            \<lparr>line_text = line, is_title = False, is_first = Some (j = 0),
             indent = (if j = 0 then 0 else if hanging_indent opts then indent_size opts else 0)\<rparr>)
       (enumerate 0 wrapped_lines)"

definition reference_lines :: "options \<Rightarrow> int \<Rightarrow> int \<Rightarrow> int \<Rightarrow> pystr \<Rightarrow> exn + layout_line list" where
  "reference_lines opts max_chars marker_chars i ref =
     (case text_and_indents opts marker_chars i ref of
        Inl e \<Rightarrow> Inl e
      | Inr (full_text, first_indent, subsequent_indent) \<Rightarrow>
          Inr (place_lines opts (wrap_text full_text max_chars first_indent subsequent_indent)))"

text \<open>A loop that extends a list and stops at the first exception.\<close>

fun collect :: "('a \<Rightarrow> exn + 'b list) \<Rightarrow> 'a list \<Rightarrow> exn + 'b list" where
  "collect body [] = Inr []"
| "collect body (x # xs) =
     (case body x of
        Inl e \<Rightarrow> Inl e
      | Inr ys \<Rightarrow> (case collect body xs of Inl e \<Rightarrow> Inl e | Inr rest \<Rightarrow> Inr (ys @ rest)))"

text \<open>
  \<open>add_references_to_document\<close> up to the list \<open>all_lines\<close>. The width in
  characters, which the program computes in floating point from the font size, is an
  argument.
\<close>

definition add_references_to_document :: "options \<Rightarrow> int \<Rightarrow> pystr list \<Rightarrow> exn + layout_line list" where
  "add_references_to_document opts max_chars formatted_refs =
     (case get_numbering_marker (numbering_style opts) (int (length formatted_refs)) of
        Inl e \<Rightarrow> Inl e
      | Inr sample_marker \<Rightarrow>
          (let marker_chars = int (length sample_marker) + 1;
               title = (if show_title opts
                        then [\<lparr>line_text = title_text opts, is_title = True, is_first = None,
                               indent = 0\<rparr>]
                        else [])
           in case collect (\<lambda>(i, ref). reference_lines opts max_chars marker_chars (int i) ref)
                     (enumerate 1 formatted_refs) of
                Inl e \<Rightarrow> Inl e
              | Inr ls \<Rightarrow> Inr (title @ ls)))"

text \<open>The marker of an index that is not negative, for which the marker function returns.\<close>

definition marker_text :: "options \<Rightarrow> int \<Rightarrow> pystr" where
  "marker_text opts i =
     (case get_numbering_marker (numbering_style opts) i of Inl e \<Rightarrow> [] | Inr marker \<Rightarrow> marker)"

section \<open>Regular expressions\<close>

text \<open>
  The patterns of the program use character classes, sequence, alternation, the greedy
  \<open>*\<close> and \<open>+\<close>, and groups. \<open>rmatch r s gs\<close> lists the ways \<open>r\<close> matches at the
  start of \<open>s\<close>, each as the rest of the string with the groups bound so far, in the
  order in which the backtracking matcher of \<open>re\<close> tries them: its match is the first
  of the list. No pattern of the program matches the empty string inside a repetition.

  \<open>\w\<close> is the program's on ASCII and on Latin-1; the Unicode tables beyond U+00FF are
  not reproduced, and such a character counts as no word character. The flags
  \<open>DOTALL\<close> and \<open>IGNORECASE\<close> change nothing for the patterns of the program, which
  have neither a dot nor a letter.
\<close>

datatype cclass = Lit nat | Word | Space | OneOf pystr | NoneOf pystr

datatype regex = Cls cclass | Eps | Seq regex regex | Alt regex regex | Star regex | Plus regex
  | Group nat regex

definition is_word :: "nat \<Rightarrow> bool" where
  "is_word c \<longleftrightarrow>
     (48 \<le> c \<and> c \<le> 57) \<or> (65 \<le> c \<and> c \<le> 90) \<or> c = 95 \<or> (97 \<le> c \<and> c \<le> 122)
     \<or> c = 170 \<or> c = 178 \<or> c = 179 \<or> c = 181 \<or> c = 185 \<or> c = 186
     \<or> (188 \<le> c \<and> c \<le> 190) \<or> (192 \<le> c \<and> c \<le> 214) \<or> (216 \<le> c \<and> c \<le> 246)
     \<or> (248 \<le> c \<and> c \<le> 255)"

fun in_class :: "cclass \<Rightarrow> nat \<Rightarrow> bool" where
  "in_class (Lit a) c \<longleftrightarrow> c = a"
| "in_class Word c \<longleftrightarrow> is_word c"
| "in_class Space c \<longleftrightarrow> is_space c"
| "in_class (OneOf cs) c \<longleftrightarrow> c \<in> set cs"
| "in_class (NoneOf cs) c \<longleftrightarrow> c \<notin> set cs"

type_synonym groups = "(nat \<times> pystr) list"

fun star_from :: "nat \<Rightarrow> (pystr \<Rightarrow> groups \<Rightarrow> (pystr \<times> groups) list) \<Rightarrow> pystr \<Rightarrow> groups
    \<Rightarrow> (pystr \<times> groups) list" where
  "star_from 0 f s gs = [(s, gs)]"
| "star_from (Suc n) f s gs =
     concat (map (\<lambda>(s', gs'). if length s' < length s then star_from n f s' gs' else []) (f s gs))
     @ [(s, gs)]"

primrec rmatch :: "regex \<Rightarrow> pystr \<Rightarrow> groups \<Rightarrow> (pystr \<times> groups) list" where
  "rmatch (Cls k) s gs = (case s of [] \<Rightarrow> [] | c # cs \<Rightarrow> if in_class k c then [(cs, gs)] else [])"
| "rmatch Eps s gs = [(s, gs)]"
| "rmatch (Seq a b) s gs = concat (map (\<lambda>(s', gs'). rmatch b s' gs') (rmatch a s gs))"
| "rmatch (Alt a b) s gs = rmatch a s gs @ rmatch b s gs"
| "rmatch (Star a) s gs = star_from (length s) (rmatch a) s gs"
| "rmatch (Plus a) s gs =
     concat (map (\<lambda>(s', gs'). star_from (length s') (rmatch a) s' gs') (rmatch a s gs))"
| "rmatch (Group n a) s gs =
     map (\<lambda>(s', gs'). (s', (n, take (length s - length s') s) # gs')) (rmatch a s gs)"

definition seqs :: "regex list \<Rightarrow> regex" where
  "seqs rs = foldr Seq rs Eps"

text \<open>
  The scan of \<open>finditer\<close>, \<open>sub\<close> and \<open>split\<close>: the matches from left to right, without
  overlap, each with the text before it, and the text after the last match. Group 0 is
  the whole match. A match of no character, which no pattern of the program has, is
  passed over.
\<close>

function scan :: "regex \<Rightarrow> pystr \<Rightarrow> pystr \<Rightarrow> (pystr \<times> groups) list \<times> pystr" where
  "scan r cur [] = ([], cur)"
| "scan r cur (c # cs) =
     (case rmatch r (c # cs) [] of
        [] \<Rightarrow> scan r (cur @ [c]) cs
      | (rest, gs) # _ \<Rightarrow>
          if length rest \<le> length cs
          then (case scan r [] rest of
                  (ms, after) \<Rightarrow>
                    ((cur, (0, take (Suc (length cs) - length rest) (c # cs)) # gs) # ms, after))
          else scan r (cur @ [c]) cs)"
  by pat_completeness auto
termination
  by (relation "measure (\<lambda>(r, cur, s). length s)") auto

definition finditer :: "regex \<Rightarrow> pystr \<Rightarrow> groups list" where
  "finditer r s = map snd (fst (scan r [] s))"

definition group :: "groups \<Rightarrow> nat \<Rightarrow> pystr" where
  "group gs n = (case map_of gs n of None \<Rightarrow> [] | Some g \<Rightarrow> g)"

text \<open>\<open>re.sub(r, r'\1', s)\<close> and \<open>re.split(r, s)\<close> for a pattern without groups.\<close>

definition re_sub_group1 :: "regex \<Rightarrow> pystr \<Rightarrow> pystr" where
  "re_sub_group1 r s =
     (case scan r [] s of
        (ms, after) \<Rightarrow> concat (map (\<lambda>(before, gs). before @ group gs 1) ms) @ after)"

definition re_split :: "regex \<Rightarrow> pystr \<Rightarrow> pystr list" where
  "re_split r s = (case scan r [] s of (ms, after) \<Rightarrow> map fst ms @ [after])"

section \<open>Exceptions and loops\<close>

text \<open>\<open>try: body except Exception as e: handler\<close>; every exception of the model is one.\<close>

definition try_except :: "exn + 'a \<Rightarrow> (exn \<Rightarrow> exn + 'a) \<Rightarrow> exn + 'a" where
  "try_except body handler = (case body of Inl e \<Rightarrow> handler e | Inr v \<Rightarrow> Inr v)"

text \<open>A loop over a list that updates its variables and stops at the first exception.\<close>

fun for_each :: "('s \<Rightarrow> 'a \<Rightarrow> exn + 's) \<Rightarrow> 's \<Rightarrow> 'a list \<Rightarrow> exn + 's" where
  "for_each body st [] = Inr st"
| "for_each body st (x # xs) =
     (case body st x of Inl e \<Rightarrow> Inl e | Inr st' \<Rightarrow> for_each body st' xs)"

section \<open>The BibTeX parser\<close>

text \<open>
  \<open>@(\w+)\s*\{\s*([^,]+)\s*,\s*((?:[^{}]|\{[^{}]*\})*)\}\<close>
\<close>

definition entry_pattern :: regex where
  "entry_pattern = seqs
     [Cls (Lit (of_char CHR ''@'')), Group 1 (Plus (Cls Word)), Star (Cls Space),
      Cls (Lit (of_char CHR ''{'')), Star (Cls Space),
      Group 2 (Plus (Cls (NoneOf (str '','')))), Star (Cls Space),
      Cls (Lit (of_char CHR '','')), Star (Cls Space),
      Group 3 (Star (Alt (Cls (NoneOf (str ''{}'')))
                         (seqs [Cls (Lit (of_char CHR ''{'')), Star (Cls (NoneOf (str ''{}''))),
                                Cls (Lit (of_char CHR ''}''))]))),
      Cls (Lit (of_char CHR ''}''))]"

text \<open>
  \<open>(\w+)\s*=\s*[{"]((?:[^{}"]|\{[^{}]*\})*)[}"]\<close>; the double quote is the character 34.
\<close>

definition field_pattern :: regex where
  "field_pattern = seqs
     [Group 1 (Plus (Cls Word)), Star (Cls Space), Cls (Lit (of_char CHR ''='')), Star (Cls Space),
      Cls (OneOf (str ''{'' @ [34])),
      Group 2 (Star (Alt (Cls (NoneOf (str ''{}'' @ [34])))
                         (seqs [Cls (Lit (of_char CHR ''{'')), Star (Cls (NoneOf (str ''{}''))),
                                Cls (Lit (of_char CHR ''}''))]))),
      Cls (OneOf (str ''}'' @ [34]))]"

text \<open>\<open>\{([^{}]*)\}\<close>\<close>

definition brace_pattern :: regex where
  "brace_pattern = seqs
     [Cls (Lit (of_char CHR ''{'')), Group 1 (Star (Cls (NoneOf (str ''{}'')))),
      Cls (Lit (of_char CHR ''}''))]"

text \<open>The outcome of reading the file: its text, or the exception of \<open>open\<close> or \<open>read\<close>.\<close>

type_synonym file_text = "exn + pystr"

definition bibtex_field :: "pystr dict \<Rightarrow> groups \<Rightarrow> pystr dict" where
  "bibtex_field flds field_match =
     (let field_name = py_lower (group field_match 1);
          field_value = py_strip (group field_match 2);
          field_value = re_sub_group1 brace_pattern field_value
      in dict_set flds field_name field_value)"

definition bibtex_entry :: "groups \<Rightarrow> entry" where
  "bibtex_entry match =
     (let entry_type = group match 1;
          cite_key = py_strip (group match 2);
          fields_str = group match 3;
          flds = foldl bibtex_field [] (finditer field_pattern fields_str)
      in \<lparr>etype = PStr (py_lower entry_type), ekey = PStr cite_key, efields = flds\<rparr>)"

text \<open>The body of the \<open>try\<close> statement, and the function with its handler.\<close>

definition bibtex_body :: "file_text \<Rightarrow> exn + entry list" where
  "bibtex_body file =
     (case file of
        Inl e \<Rightarrow> Inl e
      | Inr content \<Rightarrow> Inr (map bibtex_entry (finditer entry_pattern content)))"

definition parse_bibtex :: "file_text \<Rightarrow> exn + entry list" where
  "parse_bibtex file = try_except (bibtex_body file) (\<lambda>e. Inr [])"

section \<open>The RIS parser\<close>

text \<open>\<open>sub in s\<close> for strings, and \<open>s.split(sep, 1)\<close>.\<close>

fun contains :: "pystr \<Rightarrow> pystr \<Rightarrow> bool" where
  "contains sub [] \<longleftrightarrow> sub = []"
| "contains sub (c # cs) \<longleftrightarrow> prefix sub (c # cs) \<or> contains sub cs"

fun split_first_from :: "pystr \<Rightarrow> pystr \<Rightarrow> pystr \<Rightarrow> pystr list" where
  "split_first_from sep cur [] = [cur]"
| "split_first_from sep cur (c # cs) =
     (if sep \<noteq> [] \<and> prefix sep (c # cs) then [cur, drop (length sep) (c # cs)]
      else split_first_from sep (cur @ [c]) cs)"

definition py_split_first :: "pystr \<Rightarrow> pystr \<Rightarrow> pystr list" where
  "py_split_first s sep = split_first_from sep [] s"

text \<open>The line feed.\<close>

definition newline :: pystr where
  "newline = [10]"

text \<open>
  The body of the loop over the lines of a record; its variables are \<open>fields\<close> and
  \<open>entry_type\<close>.
\<close>

definition ris_line :: "pystr dict \<times> pystr \<Rightarrow> pystr \<Rightarrow> exn + pystr dict \<times> pystr" where
  "ris_line st line0 =
     (case st of (flds, entry_type) \<Rightarrow>
      let line = py_strip line0
      in if line = [] \<or> \<not> contains (str ''  -'') line then Inr (flds, entry_type)
         else
           (case py_split_first line (str ''  -'') of
              [tag0, value0] \<Rightarrow>
                (let tag = py_strip tag0; value = py_strip value0
                 in if tag = str ''TY'' then Inr (flds, py_lower value)
                    else if tag = str ''AU'' then
                      (if dict_has flds (str ''author'')
                       then Inr (dict_set flds (str ''author'')
                              (dict_get flds (str ''author'') [] @ str '' and '' @ value), entry_type)
                       else Inr (dict_set flds (str ''author'') value, entry_type))
                    else if tag = str ''TI'' then Inr (dict_set flds (str ''title'') value, entry_type)
                    else if tag = str ''PY'' then
                      Inr (dict_set flds (str ''year'')
                             (case py_split_sep value (str ''/'') of [] \<Rightarrow> [] | p # ps \<Rightarrow> p),
                           entry_type)
                    else if tag = str ''JO'' \<or> tag = str ''JF'' \<or> tag = str ''T2'' then
                      Inr (dict_set flds (str ''journal'') value, entry_type)
                    else if tag = str ''VL'' then Inr (dict_set flds (str ''volume'') value, entry_type)
                    else if tag = str ''IS'' then Inr (dict_set flds (str ''number'') value, entry_type)
                    else if tag = str ''SP'' then Inr (dict_set flds (str ''pages'') value, entry_type)
                    else if tag = str ''EP'' \<and> dict_has flds (str ''pages'') then
                      Inr (dict_set flds (str ''pages'')
                             (dict_get flds (str ''pages'') [] @ str ''-'' @ value), entry_type)
                    else if tag = str ''PB'' then
                      Inr (dict_set flds (str ''publisher'') value, entry_type)
                    else Inr (flds, entry_type))
            | _ \<Rightarrow> Inl ValueError))"

text \<open>The end of the loop over the records, shared with the EndNote parser.\<close>

definition append_entry :: "entry list \<Rightarrow> pystr dict \<times> pystr \<Rightarrow> entry list" where
  "append_entry entries st =
     (case st of (flds, entry_type) \<Rightarrow>
        if flds \<noteq> []
        then entries @ [\<lparr>etype = PStr entry_type,
                          ekey = PStr (take 20 (dict_get flds (str ''title'') (str ''unknown''))),
                          efields = flds\<rparr>]
        else entries)"

definition ris_record :: "entry list \<Rightarrow> pystr \<Rightarrow> exn + entry list" where
  "ris_record entries record =
     (if py_strip record = [] then Inr entries
      else
        (case for_each ris_line ([], str ''article'') (py_split_sep record newline) of
           Inl e \<Rightarrow> Inl e
         | Inr st \<Rightarrow> Inr (append_entry entries st)))"

definition ris_body :: "file_text \<Rightarrow> exn + entry list" where
  "ris_body file =
     (case file of
        Inl e \<Rightarrow> Inl e
      | Inr content \<Rightarrow> for_each ris_record [] (py_split_sep content (str ''ER  -'')))"

definition parse_ris :: "file_text \<Rightarrow> exn + entry list" where
  "parse_ris file = try_except (ris_body file) (\<lambda>e. Inr [])"

section \<open>The EndNote parser\<close>

text \<open>\<open>\n\s*\n\<close>\<close>

definition blank_line_pattern :: regex where
  "blank_line_pattern = seqs [Cls (Lit 10), Star (Cls Space), Cls (Lit 10)]"

definition endnote_line :: "pystr dict \<times> pystr \<Rightarrow> pystr \<Rightarrow> exn + pystr dict \<times> pystr" where
  "endnote_line st line =
     (case st of (flds, entry_type) \<Rightarrow>
      if py_strip line = [] \<or> \<not> prefix (str ''%'') line then Inr (flds, entry_type)
      else
        (case py_index line 1 of
           Inl e \<Rightarrow> Inl e
         | Inr c \<Rightarrow>
             (let tag = [c]; value = py_strip (drop 2 line)
              in if tag = str ''0'' then Inr (flds, py_lower value)
                 else if tag = str ''A'' then
                   (if dict_has flds (str ''author'')
                    then Inr (dict_set flds (str ''author'')
                           (dict_get flds (str ''author'') [] @ str '' and '' @ value), entry_type)
                    else Inr (dict_set flds (str ''author'') value, entry_type))
                 else if tag = str ''T'' then Inr (dict_set flds (str ''title'') value, entry_type)
                 else if tag = str ''D'' then
                   Inr (dict_set flds (str ''year'') (take 4 value), entry_type)
                 else if tag = str ''J'' then Inr (dict_set flds (str ''journal'') value, entry_type)
                 else if tag = str ''V'' then Inr (dict_set flds (str ''volume'') value, entry_type)
                 else if tag = str ''N'' then Inr (dict_set flds (str ''number'') value, entry_type)
                 else if tag = str ''P'' then Inr (dict_set flds (str ''pages'') value, entry_type)
                 else if tag = str ''I'' then
                   Inr (dict_set flds (str ''publisher'') value, entry_type)
                 else Inr (flds, entry_type))))"

definition endnote_record :: "entry list \<Rightarrow> pystr \<Rightarrow> exn + entry list" where
  "endnote_record entries record =
     (if py_strip record = [] then Inr entries
      else
        (case for_each endnote_line ([], str ''article'') (py_split_sep record newline) of
           Inl e \<Rightarrow> Inl e
         | Inr st \<Rightarrow> Inr (append_entry entries st)))"

definition endnote_body :: "file_text \<Rightarrow> exn + entry list" where
  "endnote_body file =
     (case file of
        Inl e \<Rightarrow> Inl e
      | Inr content \<Rightarrow> for_each endnote_record [] (re_split blank_line_pattern content))"

definition parse_endnote :: "file_text \<Rightarrow> exn + entry list" where
  "parse_endnote file = try_except (endnote_body file) (\<lambda>e. Inr [])"

section \<open>The JSON parser\<close>

text \<open>
  The operations of Python on the values that \<open>json.load\<close> returns, each with the
  exception it raises on a value of the wrong type.
\<close>

text \<open>\<open>k in v\<close> for a string \<open>k\<close>.\<close>

definition py_in :: "pystr \<Rightarrow> pyval \<Rightarrow> exn + bool" where
  "py_in k v =
     (case v of
        PDict d \<Rightarrow> Inr (dict_has d k)
      | PList xs \<Rightarrow> Inr (PStr k \<in> set xs)
      | PStr s \<Rightarrow> Inr (contains k s)
      | _ \<Rightarrow> Inl TypeError)"

text \<open>\<open>v[k]\<close> for a string \<open>k\<close>, and \<open>v[0]\<close>.\<close>

definition py_item :: "pyval \<Rightarrow> pystr \<Rightarrow> exn + pyval" where
  "py_item v k =
     (case v of
        PDict d \<Rightarrow> (case map_of d k of None \<Rightarrow> Inl KeyError | Some x \<Rightarrow> Inr x)
      | _ \<Rightarrow> Inl TypeError)"

definition py_first :: "pyval \<Rightarrow> exn + pyval" where
  "py_first v =
     (case v of
        PList xs \<Rightarrow> py_index xs 0
      | PStr s \<Rightarrow> (case py_index s 0 of Inl e \<Rightarrow> Inl e | Inr c \<Rightarrow> Inr (PStr [c]))
      | PDict d \<Rightarrow> Inl KeyError
      | _ \<Rightarrow> Inl TypeError)"

text \<open>\<open>for x in v\<close>: the elements of a list, the characters of a string, the keys of a dictionary.\<close>

definition py_iter :: "pyval \<Rightarrow> exn + pyval list" where
  "py_iter v =
     (case v of
        PList xs \<Rightarrow> Inr xs
      | PStr s \<Rightarrow> Inr (map (\<lambda>c. PStr [c]) s)
      | PDict d \<Rightarrow> Inr (map (\<lambda>(k, x). PStr k) d)
      | _ \<Rightarrow> Inl TypeError)"

text \<open>\<open>v.get(k, d)\<close>: only a dictionary has the method.\<close>

definition py_get :: "pyval \<Rightarrow> pystr \<Rightarrow> pyval \<Rightarrow> exn + pyval" where
  "py_get v k d =
     (case v of
        PDict items \<Rightarrow> Inr (case map_of items k of None \<Rightarrow> d | Some x \<Rightarrow> x)
      | _ \<Rightarrow> Inl AttributeError)"

definition is_dict :: "pyval \<Rightarrow> bool" where
  "is_dict v = (case v of PDict d \<Rightarrow> True | _ \<Rightarrow> False)"

text \<open>
  \<open>str(v)\<close>, also what an f-string prints. The texts of floats, lists and dictionaries
  are not modelled: \<open>other\<close> gives them.
\<close>

definition py_str :: "(pyval \<Rightarrow> pystr) \<Rightarrow> pyval \<Rightarrow> pystr" where
  "py_str other v =
     (case v of
        PStr s \<Rightarrow> s
      | PInt i \<Rightarrow> str_int i
      | PBool b \<Rightarrow> (if b then str ''True'' else str ''False'')
      | PNone \<Rightarrow> str ''None''
      | _ \<Rightarrow> other v)"

text \<open>\<open>sep.join(xs)\<close> raises when an element is not a string.\<close>

fun strings_of :: "pyval list \<Rightarrow> exn + pystr list" where
  "strings_of [] = Inr []"
| "strings_of (v # vs) =
     (case v of
        PStr s \<Rightarrow> (case strings_of vs of Inl e \<Rightarrow> Inl e | Inr ss \<Rightarrow> Inr (s # ss))
      | _ \<Rightarrow> Inl TypeError)"

text \<open>The body of the loop over \<open>item['author']\<close>; its variable is \<open>authors\<close>.\<close>

definition json_author :: "(pyval \<Rightarrow> pystr) \<Rightarrow> pyval list \<Rightarrow> pyval \<Rightarrow> exn + pyval list" where
  "json_author other authors author =
     (if is_dict author then
        (if py_in (str ''family'') author = Inr True \<and> py_in (str ''given'') author = Inr True
         then
           (case py_item author (str ''given'') of
              Inl e \<Rightarrow> Inl e
            | Inr given \<Rightarrow>
                (case py_item author (str ''family'') of
                   Inl e \<Rightarrow> Inl e
                 | Inr family \<Rightarrow>
                     Inr (authors @ [PStr (py_str other given @ str '' '' @ py_str other family)])))
         else if py_in (str ''literal'') author = Inr True then
           (case py_item author (str ''literal'') of
              Inl e \<Rightarrow> Inl e
            | Inr literal \<Rightarrow> Inr (authors @ [literal]))
         else Inr authors)
      else Inr authors)"

text \<open>\<open>if 'author' in item: ...\<close>\<close>

definition json_authors :: "(pyval \<Rightarrow> pystr) \<Rightarrow> pyval \<Rightarrow> pystr dict \<Rightarrow> exn + pystr dict" where
  "json_authors other item flds =
     (case py_in (str ''author'') item of
        Inl e \<Rightarrow> Inl e
      | Inr False \<Rightarrow> Inr flds
      | Inr True \<Rightarrow>
          (case py_item item (str ''author'') of
             Inl e \<Rightarrow> Inl e
           | Inr v \<Rightarrow>
               (case py_iter v of
                  Inl e \<Rightarrow> Inl e
                | Inr vs \<Rightarrow>
                    (case for_each (json_author other) [] vs of
                       Inl e \<Rightarrow> Inl e
                     | Inr authors \<Rightarrow>
                         (case strings_of authors of
                            Inl e \<Rightarrow> Inl e
                          | Inr ss \<Rightarrow>
                              Inr (dict_set flds (str ''author'') (py_join (str '' and '') ss)))))))"

definition field_map :: "(pystr \<times> pystr) list" where
  "field_map =
     [(str ''title'', str ''title''), (str ''container-title'', str ''journal''),
      (str ''publisher'', str ''publisher''), (str ''volume'', str ''volume''),
      (str ''issue'', str ''number''), (str ''page'', str ''pages'')]"

text \<open>The body of the loop over \<open>field_map.items()\<close>.\<close>

definition json_field :: "(pyval \<Rightarrow> pystr) \<Rightarrow> pyval \<Rightarrow> pystr dict \<Rightarrow> pystr \<times> pystr \<Rightarrow> exn + pystr dict" where
  "json_field other item flds names =
     (case names of (json_name, bib_field) \<Rightarrow>
        (case py_in json_name item of
           Inl e \<Rightarrow> Inl e
         | Inr False \<Rightarrow> Inr flds
         | Inr True \<Rightarrow>
             (case py_item item json_name of
                Inl e \<Rightarrow> Inl e
              | Inr v \<Rightarrow> Inr (dict_set flds bib_field (py_str other v)))))"

text \<open>\<open>if 'issued' in item: ...\<close>\<close>

definition json_year :: "(pyval \<Rightarrow> pystr) \<Rightarrow> pyval \<Rightarrow> pystr dict \<Rightarrow> exn + pystr dict" where
  "json_year other item flds =
     (case py_in (str ''issued'') item of
        Inl e \<Rightarrow> Inl e
      | Inr False \<Rightarrow> Inr flds
      | Inr True \<Rightarrow>
          (case py_item item (str ''issued'') of
             Inl e \<Rightarrow> Inl e
           | Inr issued \<Rightarrow>
               if is_dict issued \<and> py_in (str ''date-parts'') issued = Inr True then
                 (case py_item issued (str ''date-parts'') of
                    Inl e \<Rightarrow> Inl e
                  | Inr parts \<Rightarrow>
                      (case py_first parts of
                         Inl e \<Rightarrow> Inl e
                       | Inr first_part \<Rightarrow>
                           (case py_first first_part of
                              Inl e \<Rightarrow> Inl e
                            | Inr y \<Rightarrow> Inr (dict_set flds (str ''year'') (py_str other y)))))
               else
                 (case issued of
                    PStr s \<Rightarrow> Inr (dict_set flds (str ''year'') (take 4 s))
                  | _ \<Rightarrow> Inr flds)))"

text \<open>The body of the loop over the items.\<close>

definition json_item :: "(pyval \<Rightarrow> pystr) \<Rightarrow> entry list \<Rightarrow> pyval \<Rightarrow> exn + entry list" where
  "json_item other entries item =
     (case json_authors other item [] of
        Inl e \<Rightarrow> Inl e
      | Inr flds1 \<Rightarrow>
          (case for_each (json_field other item) flds1 field_map of
             Inl e \<Rightarrow> Inl e
           | Inr flds2 \<Rightarrow>
               (case json_year other item flds2 of
                  Inl e \<Rightarrow> Inl e
                | Inr flds \<Rightarrow>
                    (case py_get item (str ''type'') (PStr (str ''article-journal'')) of
                       Inl e \<Rightarrow> Inl e
                     | Inr entry_type0 \<Rightarrow>
                         (case py_in (str ''journal'') entry_type0 of
                            Inl e \<Rightarrow> Inl e
                          | Inr j \<Rightarrow>
                              (let entry_type = (if j then PStr (str ''article'') else entry_type0)
                               in case py_get item (str ''id'')
                                         (PStr (take 20 (dict_get flds (str ''title'')
                                                           (str ''unknown'')))) of
                                    Inl e \<Rightarrow> Inl e
                                  | Inr k \<Rightarrow>
                                      Inr (entries
                                           @ [\<lparr>etype = entry_type, ekey = k, efields = flds\<rparr>])))))))"

text \<open>
  The outcome of \<open>open\<close> and \<open>json.load\<close>: the decoded value, or the exception of the
  file or of the decoder on a text that is not JSON.
\<close>

definition json_body :: "(pyval \<Rightarrow> pystr) \<Rightarrow> exn + pyval \<Rightarrow> exn + entry list" where
  "json_body other loaded =
     (case loaded of
        Inl e \<Rightarrow> Inl e
      | Inr data0 \<Rightarrow>
          (let data = (if is_dict data0 then PList [data0] else data0)
           in case py_iter data of
                Inl e \<Rightarrow> Inl e
              | Inr items \<Rightarrow> for_each (json_item other) [] items))"

definition parse_json :: "(pyval \<Rightarrow> pystr) \<Rightarrow> exn + pyval \<Rightarrow> exn + entry list" where
  "parse_json other loaded = try_except (json_body other loaded) (\<lambda>e. Inr [])"

text \<open>The eight field names of the schema.\<close>

definition schema :: "pystr set" where
  "schema = str ` {''author'', ''title'', ''year'', ''journal'', ''volume'', ''number'', ''pages'',
     ''publisher''}"

text \<open>The keys of the fields of every entry of a list are in the schema.\<close>

definition schema_only :: "entry list \<Rightarrow> bool" where
  "schema_only entries \<longleftrightarrow> (\<forall>e \<in> set entries. fst ` set (efields e) \<subseteq> schema)"

text \<open>The keys of a dictionary of fields are in the schema.\<close>

definition keys_ok :: "pystr dict \<Rightarrow> bool" where
  "keys_ok flds \<longleftrightarrow> fst ` set flds \<subseteq> schema"

section \<open>Missing fields\<close>

text \<open>The entry with one more field: \<open>fields[k] = v\<close>.\<close>

definition with_field :: "entry \<Rightarrow> pystr \<Rightarrow> pystr \<Rightarrow> entry" where
  "with_field e k v = e\<lparr>efields := dict_set (efields e) k v\<rparr>"








section \<open>Facts about strings\<close>

lemma str_eq_iff [simp]: "str a = str b \<longleftrightarrow> a = b"
  by (simp add: str_def inj_map_eq_map [OF inj_of_char])

lemma str_Nil [simp]: "str [] = []"
  by (simp add: str_def)

lemma str_eq_Nil [simp]: "str a = [] \<longleftrightarrow> a = []"
  by (simp add: str_def)

lemma str_append: "str (a @ b) = str a @ str b"
  by (simp add: str_def)

lemma length_str [simp]: "length (str a) = length a"
  by (simp add: str_def)

lemma str_Cons: "str (c # cs) = of_char c # str cs"
  by (simp add: str_def)

section \<open>The numbering marker\<close>

lemma marker_alpha:
  assumes "1 \<le> i" "i \<le> 26"
  shows "get_numbering_marker (str ''alpha'') i = Inr (str [alphabet ! nat (i - 1)] @ str ''.'')"
proof -
  from assms have "i \<in> {1,2,3,4,5,6,7,8,9,10,11,12,13,14,15,16,17,18,19,20,21,22,23,24,25,26}"
    by simp arith
  then show ?thesis
    by (auto simp: get_numbering_marker_def py_chr_def alphabet_def str_def)
qed

lemma roman_table: "map (\<lambda>n. str (roman_spec (Suc n))) [0..<20] = roman_numerals"
  by code_simp

lemma marker_roman:
  assumes "1 \<le> i" "i \<le> 20"
  shows "get_numbering_marker (str ''roman'') i = Inr (str (roman_spec (nat i)) @ str ''.'')"
proof -
  from assms have n: "nat (i - 1) < 20" and s: "Suc (nat (i - 1)) = nat i"
    by simp_all
  have len: "length roman_numerals = 20"
    by (simp add: roman_numerals_def)
  have "roman_numerals ! nat (i - 1) = map (\<lambda>n. str (roman_spec (Suc n))) [0..<20] ! nat (i - 1)"
    by (simp only: roman_table)
  also have "\<dots> = str (roman_spec (nat i))"
    using n s by (simp del: upt_Suc)
  finally show ?thesis
    using assms by (simp add: get_numbering_marker_def py_index_def len)
qed


lemma marker_roman_beyond:
  "20 < i \<Longrightarrow> get_numbering_marker (str ''roman'') i = Inr (str ''['' @ str_int i @ str '']'')"
  by (simp add: get_numbering_marker_def roman_numerals_def bracketed_def)

lemma marker_none: "get_numbering_marker (str ''none'') i = Inr []"
  by (simp add: get_numbering_marker_def)

lemma marker_unrecognized:
  "style \<notin> set numbering_styles \<Longrightarrow>
   get_numbering_marker style i = Inr (str ''['' @ str_int i @ str '']'')"
  by (simp add: get_numbering_marker_def numbering_styles_def bracketed_def)

text \<open>
  Claim C6. The marker of the alpha style is the letters a to z followed by a dot for the
  indices 1 to 26, and the bracketed number at index 27; the marker of the roman style
  is the lowercase roman numeral followed by a dot for the indices 1 to 20, and the
  bracketed number beyond; the style none gives the empty string; a style that is none
  of the ten known ones gives the bracketed number.
\<close>

theorem marker_table:
  "(1 \<le> i \<and> i \<le> 26 \<longrightarrow>
      get_numbering_marker (str ''alpha'') i = Inr (str [alphabet ! nat (i - 1)] @ str ''.''))
   \<and> get_numbering_marker (str ''alpha'') 27 = Inr (str ''[27]'')
   \<and> (1 \<le> i \<and> i \<le> 20 \<longrightarrow>
      get_numbering_marker (str ''roman'') i = Inr (str (roman_spec (nat i)) @ str ''.''))
   \<and> (20 < i \<longrightarrow>
      get_numbering_marker (str ''roman'') i = Inr (str ''['' @ str_int i @ str '']''))
   \<and> get_numbering_marker (str ''none'') i = Inr []
   \<and> (style \<notin> set numbering_styles \<longrightarrow>
      get_numbering_marker style i = Inr (str ''['' @ str_int i @ str '']''))"
proof -
  have "str_int 27 = str ''27''"
    by code_simp
  then have "get_numbering_marker (str ''alpha'') 27 = Inr (str ''[27]'')"
    by (simp add: get_numbering_marker_def bracketed_def str_def)
  then show ?thesis
    using marker_alpha marker_roman marker_roman_beyond marker_none marker_unrecognized
    by blast
qed

theorem marker_table_witness:
  "get_numbering_marker (str ''alpha'') 1 = Inr (str ''a.'')
   \<and> get_numbering_marker (str ''alpha'') 26 = Inr (str ''z.'')
   \<and> get_numbering_marker (str ''alpha'') 27 = Inr (str ''[27]'')
   \<and> get_numbering_marker (str ''roman'') 1 = Inr (str ''i.'')
   \<and> get_numbering_marker (str ''roman'') 20 = Inr (str ''xx.'')
   \<and> get_numbering_marker (str ''roman'') 21 = Inr (str ''[21]'')
   \<and> get_numbering_marker (str ''none'') 1 = Inr (str '''')
   \<and> get_numbering_marker (str ''letters'') 21 = Inr (str ''[21]'')"
proof -
  have r: "roman_spec (Suc 0) = ''i''" "roman_spec 20 = ''xx''"
    by code_simp+
  have n: "str_int 21 = str ''21''"
    by code_simp
  have u: "str ''letters'' \<notin> set numbering_styles"
    by (simp add: numbering_styles_def)
  show ?thesis
    using marker_table [of 1 "str ''letters''"] marker_table [of 26 "str ''letters''"]
      marker_table [of 20 "str ''letters''"] marker_table [of 21 "str ''letters''"] u
    by (simp add: alphabet_def r n str_def)
qed

section \<open>Wrapping: the lines rebuild the text and respect the width\<close>

lemma py_join_snoc: "py_join sep (xs @ [y]) = (if xs = [] then y else py_join sep xs @ sep @ y)"
  by (induction sep xs rule: py_join.induct) auto

lemma length_py_join_snoc:
  "xs \<noteq> [] \<Longrightarrow> length (py_join [c] (xs @ [y])) = length (py_join [c] xs) + 1 + length y"
  by (simp add: py_join_snoc)

lemma wrap_inv_init:
  "wrap_inv \<lparr>lines = [], current_line = [], current_length = 0, is_first_line = True\<rparr>"
  by (simp add: wrap_inv_def)

lemma wrap_inv_step: "wrap_inv st \<Longrightarrow> wrap_inv (wrap_step f s st w)"
  by (auto simp: wrap_inv_def wrap_step_def Let_def py_join_snoc str_def)

lemma wrap_step_current_line: "current_line (wrap_step f s st w) \<noteq> []"
  by (simp add: wrap_step_def Let_def)

lemma flush_step:
  "wrap_inv st \<Longrightarrow>
   py_join (str '' '') (flush (wrap_step f s st w)) =
     (if current_line st = [] then w else py_join (str '' '') (flush st) @ str '' '' @ w)"
  by (auto simp: wrap_inv_def wrap_step_def flush_def Let_def py_join_snoc)

lemma wrap_loop_join:
  "wrap_inv st \<Longrightarrow> (current_line st = [] \<longleftrightarrow> done = []) \<Longrightarrow>
   py_join (str '' '') (flush st) = py_join (str '' '') done \<Longrightarrow>
   py_join (str '' '') (flush (wrap_loop f s st ws)) = py_join (str '' '') (done @ ws)"
proof (induction ws arbitrary: st "done")
  case Nil
  then show ?case by simp
next
  case (Cons w ws)
  have "py_join (str '' '') (flush (wrap_loop f s (wrap_step f s st w) ws))
        = py_join (str '' '') ((done @ [w]) @ ws)"
  proof (rule Cons.IH)
    show "wrap_inv (wrap_step f s st w)"
      using Cons.prems(1) by (rule wrap_inv_step)
    show "(current_line (wrap_step f s st w) = []) = (done @ [w] = [])"
      by (simp add: wrap_step_current_line)
    show "py_join (str '' '') (flush (wrap_step f s st w)) = py_join (str '' '') (done @ [w])"
      using Cons.prems by (simp add: flush_step py_join_snoc)
  qed
  then show ?case by simp
qed

lemma width_inv_step:
  assumes "wrap_inv st" "width_inv W tokens st" "w \<in> tokens"
  shows "width_inv W tokens (wrap_step W W st w)"
proof -
  consider (fits) "current_length st + int (length w) + int (length (current_line st)) \<le> W"
    | (breaks) "\<not> current_length st + int (length w) + int (length (current_line st)) \<le> W"
    by blast
  then show ?thesis
  proof cases
    case fits
    then show ?thesis
    using assms
    by (auto simp: wrap_inv_def width_inv_def wrap_step_def Let_def py_join_snoc line_ok_def str_def)
  next
    case breaks
    then show ?thesis
      using assms
      by (auto simp: width_inv_def wrap_step_def Let_def line_ok_def)
  qed
qed

lemma width_inv_loop:
  "wrap_inv st \<Longrightarrow> width_inv W tokens st \<Longrightarrow> set ws \<subseteq> tokens \<Longrightarrow>
   width_inv W tokens (wrap_loop W W st ws)"
proof (induction ws arbitrary: st)
  case Nil
  then show ?case by simp
next
  case (Cons w ws)
  then show ?case
    by (simp add: wrap_inv_step width_inv_step)
qed

text \<open>
  Claim C5. With both indents zero, the lines that \<open>wrap_text\<close> returns, joined with
  single spaces, are the tokens of the text joined with single spaces (the text with its
  white space normalised); and a line is longer than the width only when it is a single
  token of the text that is itself longer than the width.
\<close>

theorem wrap_text_zero_indents:
  "py_join (str '' '') (wrap_text text W 0 0) = py_join (str '' '') (py_split text)
   \<and> (\<forall>line \<in> set (wrap_text text W 0 0).
         int (length line) \<le> W \<or> (line \<in> set (py_split text) \<and> W < int (length line)))"
proof
  show "py_join (str '' '') (wrap_text text W 0 0) = py_join (str '' '') (py_split text)"
    unfolding wrap_text_def
    using wrap_loop_join [OF wrap_inv_init, of "[]" W W "py_split text"]
    by (simp add: flush_def)
next
  have "width_inv W (set (py_split text))
          (wrap_loop W W \<lparr>lines = [], current_line = [], current_length = 0, is_first_line = True\<rparr>
             (py_split text))"
    by (rule width_inv_loop [OF wrap_inv_init]) (simp_all add: width_inv_def)
  then show "\<forall>line \<in> set (wrap_text text W 0 0).
         int (length line) \<le> W \<or> (line \<in> set (py_split text) \<and> W < int (length line))"
    by (auto simp: wrap_text_def flush_def width_inv_def line_ok_def)
qed

theorem wrap_text_zero_indents_witness:
  "wrap_text (str ''ab  cdefgh i j'') 3 0 0 = map str [''ab'', ''cdefgh'', ''i j'']
   \<and> py_split (str ''ab  cdefgh i j'') = map str [''ab'', ''cdefgh'', ''i'', ''j'']
   \<and> py_join (str '' '') (map str [''ab'', ''cdefgh'', ''i j'']) = str ''ab cdefgh i j''
   \<and> py_join (str '' '') (wrap_text (str ''ab  cdefgh i j'') 3 0 0) =
       py_join (str '' '') (py_split (str ''ab  cdefgh i j''))
   \<and> list_all (\<lambda>line. int (length line) \<le> 3 \<or> line = str ''cdefgh'')
        (wrap_text (str ''ab  cdefgh i j'') 3 0 0)"
proof -
  have w: "wrap_text (str ''ab  cdefgh i j'') 3 0 0 = map str [''ab'', ''cdefgh'', ''i j'']"
    by (simp add: wrap_text_def flush_def wrap_step_def py_split_def is_space_def str_def)
  have s: "py_split (str ''ab  cdefgh i j'') = map str [''ab'', ''cdefgh'', ''i'', ''j'']"
    by (simp add: py_split_def is_space_def str_def)
  show ?thesis
    using wrap_text_zero_indents [of "str ''ab  cdefgh i j''" 3]
    by (simp add: w s) (simp add: str_def)
qed

section \<open>Sorting: identity, stability and the place of a missing year\<close>

lemma sort_entries_other:
  "sort_order opts \<notin> {str ''author'', str ''year'', str ''title''} \<Longrightarrow> sort_entries opts es = es"
  by (simp add: sort_entries_def)

lemma year_last:
  assumes "sort_order opts = str ''year''"
    and "i < length (sort_entries opts es)" "j < length (sort_entries opts es)"
    and "\<not> dict_has (efields (sort_entries opts es ! i)) (str ''year'')"
    and "dict_has (efields (sort_entries opts es ! j)) (str ''year'')"
    and "year_key (sort_entries opts es ! j) < str ''9999''"
  shows "j < i"
proof (rule ccontr)
  assume "\<not> j < i"
  then have "i \<le> j" by simp
  let ?s = "sort_entries opts es"
  have "sorted (map year_key ?s)"
    using assms(1) by (simp add: sort_entries_def sorted_sort_key)
  then have "year_key (?s ! i) \<le> year_key (?s ! j)"
    using \<open>i \<le> j\<close> assms(2,3) by (simp add: sorted_iff_nth_mono)
  moreover have "year_key (?s ! i) = str ''9999''"
    using assms(4) by (simp add: year_key_def dict_get_def dict_has_def)
  ultimately show False
    using assms(6) by simp
qed

text \<open>
  Sorting by year does not place every entry without a year after all entries that have
  one: the key of a missing year is the string 9999, and a year such as "in press"
  compares greater than it.
\<close>

theorem sort_entries_year_counterexample:
  "sort_entries (default_options\<lparr>sort_order := str ''year''\<rparr>)
     [article ''a'' [(''title'', ''T'')], article ''b'' [(''year'', ''in press'')]]
   = [article ''a'' [(''title'', ''T'')], article ''b'' [(''year'', ''in press'')]]
   \<and> \<not> dict_has (efields (article ''a'' [(''title'', ''T'')])) (str ''year'')
   \<and> dict_has (efields (article ''b'' [(''year'', ''in press'')])) (str ''year'')"
  by (simp add: sort_entries_def year_key_def dict_get_def dict_has_def article_def str_def)

text \<open>
  Claim C7, as the program has it. An order other than author, year and title (so the
  order appearance) returns the list as it is; sorting is stable in each of the three
  other orders (the entries of any one key keep their relative order); and sorting by
  year places an entry without a year after every entry whose year compares less than
  the string 9999.
\<close>

theorem sort_entries_properties:
  "(sort_order opts \<notin> {str ''author'', str ''year'', str ''title''} \<longrightarrow>
      sort_entries opts es = es)
   \<and> (sort_order opts = str ''author'' \<longrightarrow>
      filter (\<lambda>e. author_key e = k) (sort_entries opts es) = filter (\<lambda>e. author_key e = k) es)
   \<and> (sort_order opts = str ''year'' \<longrightarrow>
      filter (\<lambda>e. year_key e = k) (sort_entries opts es) = filter (\<lambda>e. year_key e = k) es)
   \<and> (sort_order opts = str ''title'' \<longrightarrow>
      filter (\<lambda>e. title_key e = k) (sort_entries opts es) = filter (\<lambda>e. title_key e = k) es)
   \<and> (sort_order opts = str ''year'' \<longrightarrow>
      (\<forall>i j. i < length (sort_entries opts es) \<and> j < length (sort_entries opts es)
         \<and> \<not> dict_has (efields (sort_entries opts es ! i)) (str ''year'')
         \<and> dict_has (efields (sort_entries opts es ! j)) (str ''year'')
         \<and> year_key (sort_entries opts es ! j) < str ''9999''
         \<longrightarrow> j < i))"
proof (intro conjI impI allI)
  assume "sort_order opts \<notin> {str ''author'', str ''year'', str ''title''}"
  then show "sort_entries opts es = es"
    by (rule sort_entries_other)
next
  assume "sort_order opts = str ''author''"
  then show "filter (\<lambda>e. author_key e = k) (sort_entries opts es)
      = filter (\<lambda>e. author_key e = k) es"
    by (simp add: sort_entries_def sort_key_stable)
next
  assume "sort_order opts = str ''year''"
  then show "filter (\<lambda>e. year_key e = k) (sort_entries opts es)
      = filter (\<lambda>e. year_key e = k) es"
    by (simp add: sort_entries_def sort_key_stable)
next
  assume "sort_order opts = str ''title''"
  then show "filter (\<lambda>e. title_key e = k) (sort_entries opts es)
      = filter (\<lambda>e. title_key e = k) es"
    by (simp add: sort_entries_def sort_key_stable)
next
  fix i j
  assume "sort_order opts = str ''year''"
    and "i < length (sort_entries opts es) \<and> j < length (sort_entries opts es)
         \<and> \<not> dict_has (efields (sort_entries opts es ! i)) (str ''year'')
         \<and> dict_has (efields (sort_entries opts es ! j)) (str ''year'')
         \<and> year_key (sort_entries opts es ! j) < str ''9999''"
  then show "j < i"
    using year_last by blast
qed

theorem sort_entries_properties_witness:
  "sort_entries (default_options\<lparr>sort_order := str ''appearance''\<rparr>)
     [article ''a'' [], article ''b'' [(''year'', ''2020'')], article ''c'' [(''year'', ''2019'')],
      article ''d'' [(''year'', ''2020'')]]
   = [article ''a'' [], article ''b'' [(''year'', ''2020'')], article ''c'' [(''year'', ''2019'')],
      article ''d'' [(''year'', ''2020'')]]
   \<and> sort_entries (default_options\<lparr>sort_order := str ''year''\<rparr>)
     [article ''a'' [], article ''b'' [(''year'', ''2020'')], article ''c'' [(''year'', ''2019'')],
      article ''d'' [(''year'', ''2020'')]]
   = [article ''c'' [(''year'', ''2019'')], article ''b'' [(''year'', ''2020'')],
      article ''d'' [(''year'', ''2020'')], article ''a'' []]
   \<and> filter (\<lambda>e. year_key e = str ''2020'')
       (sort_entries (default_options\<lparr>sort_order := str ''year''\<rparr>)
         [article ''a'' [], article ''b'' [(''year'', ''2020'')], article ''c'' [(''year'', ''2019'')],
          article ''d'' [(''year'', ''2020'')]])
     = [article ''b'' [(''year'', ''2020'')], article ''d'' [(''year'', ''2020'')]]
   \<and> \<not> dict_has (efields (article ''a'' [])) (str ''year'')
   \<and> dict_has (efields (article ''c'' [(''year'', ''2019'')])) (str ''year'')
   \<and> year_key (article ''c'' [(''year'', ''2019'')]) < str ''9999''
   \<and> (0::nat) < 3"
proof -
  let ?es = "[article ''a'' [], article ''b'' [(''year'', ''2020'')],
      article ''c'' [(''year'', ''2019'')], article ''d'' [(''year'', ''2020'')]]"
  have s: "sort_entries (default_options\<lparr>sort_order := str ''year''\<rparr>) ?es
     = [article ''c'' [(''year'', ''2019'')], article ''b'' [(''year'', ''2020'')],
      article ''d'' [(''year'', ''2020'')], article ''a'' []]"
    by (simp add: sort_entries_def year_key_def dict_get_def article_def str_def)
  have y: "year_key (article ''c'' [(''year'', ''2019'')]) < str ''9999''"
    by (simp add: year_key_def dict_get_def article_def str_def)
  have h: "\<not> dict_has (efields (article ''a'' [])) (str ''year'')"
    "dict_has (efields (article ''c'' [(''year'', ''2019'')])) (str ''year'')"
    by (simp_all add: dict_has_def article_def)
  have k: "filter (\<lambda>e. year_key e = str ''2020'') ?es
     = [article ''b'' [(''year'', ''2020'')], article ''d'' [(''year'', ''2020'')]]"
    by (simp add: year_key_def dict_get_def article_def str_def)
  from sort_entries_properties
    [of "default_options\<lparr>sort_order := str ''year''\<rparr>" ?es "str ''2020''"]
  have "filter (\<lambda>e. year_key e = str ''2020'')
       (sort_entries (default_options\<lparr>sort_order := str ''year''\<rparr>) ?es)
        = filter (\<lambda>e. year_key e = str ''2020'') ?es"
    and "3 < length (sort_entries (default_options\<lparr>sort_order := str ''year''\<rparr>) ?es)
         \<and> 0 < length (sort_entries (default_options\<lparr>sort_order := str ''year''\<rparr>) ?es)
         \<and> \<not> dict_has (efields
               (sort_entries (default_options\<lparr>sort_order := str ''year''\<rparr>) ?es ! 3)) (str ''year'')
         \<and> dict_has (efields
               (sort_entries (default_options\<lparr>sort_order := str ''year''\<rparr>) ?es ! 0)) (str ''year'')
         \<and> year_key (sort_entries (default_options\<lparr>sort_order := str ''year''\<rparr>) ?es ! 0)
              < str ''9999''
         \<longrightarrow> (0::nat) < 3"
    by simp_all
  moreover have "sort_entries (default_options\<lparr>sort_order := str ''appearance''\<rparr>) ?es = ?es"
    using sort_entries_properties
      [of "default_options\<lparr>sort_order := str ''appearance''\<rparr>" ?es "str ''2020''"]
    by simp
  ultimately show ?thesis
    using s y h k by simp
qed

section \<open>Author names in the ieee, vancouver and nature styles\<close>

lemma split_from_nonempty: "p \<in> set (split_from cur s) \<Longrightarrow> p \<noteq> []"
  by (induction cur s rule: split_from.induct) (auto split: if_splits)

lemma py_split_nonempty: "p \<in> set (py_split s) \<Longrightarrow> p \<noteq> []"
  unfolding py_split_def by (rule split_from_nonempty)

lemma py_join_empty_sep: "py_join [] xs = concat xs"
  by (induction "[]::pystr" xs rule: py_join.induct) auto

lemma initials_of_tokens:
  assumes "\<forall>p \<in> set parts. p \<noteq> []"
  shows "py_join [] (initials_of parts) = map hd (butlast parts)"
proof -
  have "\<forall>p \<in> set (butlast parts). p \<noteq> []"
    using assms by (auto dest: in_set_butlastD)
  then have "filter (\<lambda>p. p \<noteq> []) (butlast parts) = butlast parts"
    by (simp add: filter_id_conv)
  then show ?thesis
    by (simp add: initials_of_def py_join_empty_sep concat_map_singleton)
qed

lemma ieee_name_spec:
  "ieee_name a = (if length (py_split a) > 1 then surname_initials (py_split a) else a)"
  using initials_of_tokens [of "py_split a"] py_split_nonempty [of _ a]
  by (auto simp: ieee_name_def Let_def surname_initials_def)

lemma author_list_Nil: "author_list [] = []"
  by (simp add: author_list_def py_split_sep_def py_strip_def)

text \<open>
  Claim C9. In the ieee, vancouver and nature styles each author is rendered as the
  surname, a space and the concatenated initials of the tokens before it, with no
  punctuation, where a name of a single token, which has no token before the surname,
  passes through unchanged as in every style; at most six authors are rendered, joined
  with a comma and a space, and when the author list has more than six the text
  ", et al." follows the first six.
\<close>

theorem format_authors_ieee_family:
  "style \<in> {str ''ieee'', str ''vancouver'', str ''nature''} \<longrightarrow>
   format_authors author_str style =
     Inr (py_join (str '', '')
            (map (\<lambda>a. if length (py_split a) > 1 then surname_initials (py_split a) else a)
               (take 6 (author_list author_str)))
          @ (if length (author_list author_str) > 6 then str '', et al.'' else []))"
proof
  assume s: "style \<in> {str ''ieee'', str ''vancouver'', str ''nature''}"
  have n: "(\<lambda>a. if length (py_split a) > 1 then surname_initials (py_split a) else a) = ieee_name"
    by (rule ext) (simp add: ieee_name_spec)
  from s show "format_authors author_str style =
     Inr (py_join (str '', '')
            (map (\<lambda>a. if length (py_split a) > 1 then surname_initials (py_split a) else a)
               (take 6 (author_list author_str)))
          @ (if length (author_list author_str) > 6 then str '', et al.'' else []))"
    unfolding n
    by (auto simp: format_authors_def Let_def author_list_Nil)
qed

theorem format_authors_ieee_family_witness:
  "format_authors (str ''Ada B Cole, Dan Eve and F G, H I, J K, L M, N O'') (str ''ieee'')
     = Inr (str ''Cole AB, Eve D, G F, I H, K J, M L, et al.'')
   \<and> format_authors (str ''Ada B Cole and Plato'') (str ''nature'')
     = Inr (str ''Cole AB, Plato'')"
proof -
  have a: "author_list (str ''Ada B Cole, Dan Eve and F G, H I, J K, L M, N O'')
      = map str [''Ada B Cole'', ''Dan Eve'', ''F G'', ''H I'', ''J K'', ''L M'', ''N O'']"
    by (simp add: author_list_def py_split_sep_def py_strip_def is_space_def str_def prefix_def)
  have b: "author_list (str ''Ada B Cole and Plato'') = map str [''Ada B Cole'', ''Plato'']"
    by (simp add: author_list_def py_split_sep_def py_strip_def is_space_def str_def prefix_def)
  have s: "py_split (str ''Ada B Cole'') = map str [''Ada'', ''B'', ''Cole'']"
    "py_split (str ''Dan Eve'') = map str [''Dan'', ''Eve'']"
    "py_split (str ''F G'') = map str [''F'', ''G'']"
    "py_split (str ''H I'') = map str [''H'', ''I'']"
    "py_split (str ''J K'') = map str [''J'', ''K'']"
    "py_split (str ''L M'') = map str [''L'', ''M'']"
    "py_split (str ''Plato'') = map str [''Plato'']"
    by (simp_all add: py_split_def is_space_def str_def)
  show ?thesis
    using format_authors_ieee_family
        [of "str ''ieee''" "str ''Ada B Cole, Dan Eve and F G, H I, J K, L M, N O''"]
      format_authors_ieee_family [of "str ''nature''" "str ''Ada B Cole and Plato''"]
    by (simp add: a b s surname_initials_def) (simp add: str_def)
qed

section \<open>A style that is not known\<close>

lemma format_authors_unknown:
  "style \<notin> set known_styles \<Longrightarrow>
   format_authors a style = Inr (py_join (str '', '') (author_list a))"
  by (auto simp: format_authors_def known_styles_def Let_def author_list_Nil)

text \<open>
  Claim C3, as the program has it. For a style that is none of the ten known ones,
  \<open>format_entry_python\<close> applies the apa composer to the authors joined with a comma
  and a space, unmodified (the fall-back of \<open>format_authors\<close>); the result is that of
  the style apa whenever the two renderings of the authors agree, in particular when
  the entry has no author field.
\<close>

theorem format_entry_unknown_style:
  "style \<notin> set known_styles \<longrightarrow>
     format_entry_python entry style =
       Inr (format_apa (etype entry)
              (py_join (str '', '') (author_list (dict_get (efields entry) (str ''author'') (str ''''))))
              (dict_get (efields entry) (str ''year'') (str ''n.d.''))
              (dict_get (efields entry) (str ''title'') (str ''''))
              (efields entry))
     \<and> (format_authors (dict_get (efields entry) (str ''author'') (str '''')) style
          = format_authors (dict_get (efields entry) (str ''author'') (str '''')) (str ''apa'')
        \<longrightarrow> format_entry_python entry style = format_entry_python entry (str ''apa''))
     \<and> (\<not> dict_has (efields entry) (str ''author'')
        \<longrightarrow> format_entry_python entry style = format_entry_python entry (str ''apa''))"
proof
  assume u: "style \<notin> set known_styles"
  then have d: "style \<noteq> str ''apa''" "style \<noteq> str ''apa7''" "style \<noteq> str ''mla''"
    "style \<noteq> str ''chicago''" "style \<noteq> str ''harvard''" "style \<noteq> str ''ieee''"
    "style \<noteq> str ''vancouver''" "style \<noteq> str ''ama''" "style \<noteq> str ''acs''"
    "style \<noteq> str ''nature''"
    by (auto simp: known_styles_def)
  have 1: "format_entry_python entry style =
       Inr (format_apa (etype entry)
              (py_join (str '', '') (author_list (dict_get (efields entry) (str ''author'') (str ''''))))
              (dict_get (efields entry) (str ''year'') (str ''n.d.''))
              (dict_get (efields entry) (str ''title'') (str ''''))
              (efields entry))"
    by (simp add: format_entry_python_def Let_def format_authors_unknown [OF u] d)
  have 2: "format_entry_python entry style = format_entry_python entry (str ''apa'')"
    if "format_authors (dict_get (efields entry) (str ''author'') (str '''')) style
          = format_authors (dict_get (efields entry) (str ''author'') (str '''')) (str ''apa'')"
    using that by (simp add: format_entry_python_def Let_def d split: sum.split)
  have 3: "format_entry_python entry style = format_entry_python entry (str ''apa'')"
    if "\<not> dict_has (efields entry) (str ''author'')"
  proof (rule 2)
    from that have "dict_get (efields entry) (str ''author'') (str '''') = []"
      by (simp add: dict_has_def dict_get_def)
    then show "format_authors (dict_get (efields entry) (str ''author'') (str '''')) style
          = format_authors (dict_get (efields entry) (str ''author'') (str '''')) (str ''apa'')"
      by (simp add: format_authors_def)
  qed
  from 1 2 3 show "format_entry_python entry style =
       Inr (format_apa (etype entry)
              (py_join (str '', '') (author_list (dict_get (efields entry) (str ''author'') (str ''''))))
              (dict_get (efields entry) (str ''year'') (str ''n.d.''))
              (dict_get (efields entry) (str ''title'') (str ''''))
              (efields entry))
     \<and> (format_authors (dict_get (efields entry) (str ''author'') (str '''')) style
          = format_authors (dict_get (efields entry) (str ''author'') (str '''')) (str ''apa'')
        \<longrightarrow> format_entry_python entry style = format_entry_python entry (str ''apa''))
     \<and> (\<not> dict_has (efields entry) (str ''author'')
        \<longrightarrow> format_entry_python entry style = format_entry_python entry (str ''apa''))"
    by blast
qed

lemma author_list_jane: "author_list (str ''Jane Smith'') = [str ''Jane Smith'']"
  by (simp add: author_list_def py_split_sep_def py_strip_def is_space_def str_def prefix_def)

lemma py_split_jane: "py_split (str ''Jane Smith'') = [str ''Jane'', str ''Smith'']"
  by (simp add: py_split_def is_space_def str_def)

text \<open>
  An unknown style does not behave as apa in the formatting of the authors: the names
  are not turned into surname and initials.
\<close>

theorem format_entry_unknown_style_counterexample:
  "str ''turabian'' \<notin> set known_styles
   \<and> format_entry_python
       (article ''smith2020'' [(''author'', ''Jane Smith''), (''year'', ''2020''), (''title'', ''A Study''),
          (''journal'', ''J. Sci''), (''volume'', ''5''), (''number'', ''2''), (''pages'', ''10-20'')])
       (str ''turabian'')
     = Inr (str ''Jane Smith (2020). A Study. J. Sci, 5(2), 10-20.'')
   \<and> format_entry_python
       (article ''smith2020'' [(''author'', ''Jane Smith''), (''year'', ''2020''), (''title'', ''A Study''),
          (''journal'', ''J. Sci''), (''volume'', ''5''), (''number'', ''2''), (''pages'', ''10-20'')])
       (str ''apa'')
     = Inr (str ''Smith, J. (2020). A Study. J. Sci, 5(2), 10-20.'')"
proof -
  have u: "str ''turabian'' \<notin> set known_styles"
    by (simp add: known_styles_def)
  have f: "format_authors (str ''Jane Smith'') (str ''turabian'') = Inr (str ''Jane Smith'')"
    "format_authors (str ''Jane Smith'') (str ''apa'') = Inr (str ''Smith, J.'')"
    by (simp_all add: format_authors_def author_list_jane apa_name_def py_split_jane
        initials_of_def) (simp add: str_def)
  show ?thesis
    by (simp add: u format_entry_python_def article_def dict_get_def f format_apa_def part_def
        added_def is_article_def) (simp add: str_def)
qed

theorem format_entry_unknown_style_witness:
  "str ''turabian'' \<notin> set known_styles
   \<and> \<not> dict_has (efields (article ''anon'' [(''year'', ''1999''), (''title'', ''T'')])) (str ''author'')
   \<and> format_entry_python (article ''anon'' [(''year'', ''1999''), (''title'', ''T'')]) (str ''turabian'')
     = format_entry_python (article ''anon'' [(''year'', ''1999''), (''title'', ''T'')]) (str ''apa'')
   \<and> format_entry_python (article ''anon'' [(''year'', ''1999''), (''title'', ''T'')]) (str ''turabian'')
     = Inr (str ''(1999). T.'')"
proof -
  have u: "str ''turabian'' \<notin> set known_styles"
    by (simp add: known_styles_def)
  have h: "\<not> dict_has (efields (article ''anon'' [(''year'', ''1999''), (''title'', ''T'')])) (str ''author'')"
    by (simp add: dict_has_def article_def)
  have a: "format_entry_python (article ''anon'' [(''year'', ''1999''), (''title'', ''T'')]) (str ''apa'')
     = Inr (str ''(1999). T.'')"
    by (simp add: format_entry_python_def article_def dict_get_def format_authors_def
        format_apa_def part_def added_def is_article_def) (simp add: str_def)
  from format_entry_unknown_style
      [of "str ''turabian''" "article ''anon'' [(''year'', ''1999''), (''title'', ''T'')]"] u h
  have e: "format_entry_python (article ''anon'' [(''year'', ''1999''), (''title'', ''T'')])
       (str ''turabian'')
     = format_entry_python (article ''anon'' [(''year'', ''1999''), (''title'', ''T'')]) (str ''apa'')"
    by blast
  show ?thesis
    using u h a e by simp
qed

section \<open>Formatting an entry: the result, when there is one, is not empty\<close>

lemma author_list_comma: "author_list (str '','') = []"
  by (simp add: author_list_def py_split_sep_def py_strip_def is_space_def str_def prefix_def)

text \<open>
  Claim C10 at an entry whose author field holds no name: in the mla style the
  formatter raises, so no string is returned and the formatting stage ends with the
  exception; the apa branch guards the same access and returns.
\<close>

theorem format_entry_mla_raises:
  "format_entry_python (article ''k'' [(''author'', '',''), (''title'', ''T'')]) (str ''mla'')
     = Inl IndexError
   \<and> format_with_python (default_options\<lparr>format := str ''mla''\<rparr>)
       [article ''k'' [(''author'', '',''), (''title'', ''T'')]] = Inl IndexError
   \<and> format_entry_python (article ''k'' [(''author'', '',''), (''title'', ''T'')]) (str ''apa'')
     = Inr (str ''(n.d.). T.'')"
proof -
  have m: "format_authors (str '','') (str ''mla'') = Inl IndexError"
    by (simp add: format_authors_def author_list_comma py_index_def)
  have a: "format_authors (str '','') (str ''apa'') = Inr []"
    by (simp add: format_authors_def author_list_comma)
  have 1: "format_entry_python (article ''k'' [(''author'', '',''), (''title'', ''T'')]) (str ''mla'')
     = Inl IndexError"
    by (simp add: format_entry_python_def article_def dict_get_def m)
  have 2: "format_entry_python (article ''k'' [(''author'', '',''), (''title'', ''T'')]) (str ''apa'')
     = Inr (str ''(n.d.). T.'')"
    by (simp add: format_entry_python_def article_def dict_get_def a format_apa_def is_article_def
        part_def) (simp add: str_def)
  show ?thesis
    by (simp add: 1 2 format_with_python_def)
qed

lemma py_join_eq_Nil:
  "sep \<noteq> [] \<Longrightarrow> py_join sep xs = [] \<longleftrightarrow> xs = [] \<or> xs = [[]]"
  by (induction sep xs rule: py_join.induct) auto

lemma py_join_nonempty:
  "sep \<noteq> [] \<Longrightarrow> x \<in> set xs \<Longrightarrow> x \<noteq> [] \<Longrightarrow> py_join sep xs \<noteq> []"
  by (auto simp: py_join_eq_Nil)

lemma format_entry_nonempty:
  assumes "format_entry_python entry style = Inr out"
  shows "out \<noteq> []"
proof -
  have sp: "str '' '' \<noteq> []" by simp
  note j = py_join_nonempty [OF sp]
  have "format_apa ty a y t fs \<noteq> []" for ty a y t fs
    unfolding format_apa_def by (rule j [where x = "hd (if a \<noteq> [] then [a @ str '' ('' @ y @ str '').''] else [str ''('' @ y @ str '').''])"]) (auto simp: str_def)
  moreover have "format_mla ty a y t fs \<noteq> []" for ty a y t fs
    unfolding format_mla_def by (rule j [where x = "dquote @ t @ str ''.'' @ dquote"]) (auto simp: dquote_def)
  moreover have "format_chicago ty a y t fs \<noteq> []" for ty a y t fs
    unfolding format_chicago_def by (rule j [where x = "y @ str ''. '' @ dquote @ t @ str ''.'' @ dquote"]) (auto simp: dquote_def)
  moreover have "format_ieee ty a y t fs \<noteq> []" for ty a y t fs
    unfolding format_ieee_def by (rule j [where x = "dquote @ t @ str '','' @ dquote"]) (auto simp: dquote_def)
  moreover have "format_vancouver ty a y t fs \<noteq> []" for ty a y t fs
    unfolding format_vancouver_def by (rule j [where x = "t @ str ''.''"]) (auto simp: str_def)
  moreover have "format_ama ty a y t fs \<noteq> []" for ty a y t fs
    unfolding format_ama_def by (rule j [where x = "t @ str ''.''"]) (auto simp: str_def)
  moreover have "format_acs ty a y t fs \<noteq> []" for ty a y t fs
    unfolding format_acs_def by (rule j [where x = "t @ str ''.''"]) (auto simp: str_def)
  moreover have "format_nature ty a y t fs \<noteq> []" for ty a y t fs
    unfolding format_nature_def by (rule j [where x = "t @ str ''.''"]) (auto simp: str_def)
  ultimately show ?thesis
    using assms
    by (auto simp: format_entry_python_def Let_def format_harvard_def split: sum.splits if_splits)
qed

lemma format_refs_length:
  "format_refs style refs entries = Inr out \<Longrightarrow> length out = length refs + length entries"
proof (induction entries arbitrary: refs)
  case Nil
  then show ?case by simp
next
  case (Cons e es)
  then show ?case
    by (auto split: sum.splits dest: format_entry_nonempty)
qed

section \<open>Missing fields: which clauses are omitted\<close>

































































lemma with_field_simps [simp]:
  "efields (with_field e k v) = dict_set (efields e) k v"
  "etype (with_field e k v) = etype e"
  by (simp_all add: with_field_def)
























section \<open>The indents of the wrapped references\<close>

lemma marker_returns:
  "0 \<le> i \<Longrightarrow> get_numbering_marker style i = Inr (case get_numbering_marker style i of Inl e \<Rightarrow> [] | Inr m \<Rightarrow> m)"
  by (auto simp: get_numbering_marker_def py_index_def py_chr_def symbols_def roman_numerals_def)

lemma marker_text_eq:
  "0 \<le> i \<Longrightarrow> get_numbering_marker (numbering_style opts) i = Inr (marker_text opts i)"
  unfolding marker_text_def by (rule marker_returns)

lemma collect_map:
  "(\<And>x. x \<in> set xs \<Longrightarrow> body x = Inr (f x)) \<Longrightarrow> collect body xs = Inr (concat (map f xs))"
  by (induction xs) auto


lemma reference_lines_eq:
  "0 \<le> i \<Longrightarrow>
   reference_lines opts max_chars marker_chars i ref =
     Inr (place_lines opts
            (wrap_text (if marker_text opts i \<noteq> [] then marker_text opts i @ str '' '' @ ref else ref)
               max_chars 0
               (if hanging_indent opts \<and> marker_text opts i \<noteq> [] then marker_chars else 0)))"
  by (simp add: reference_lines_def text_and_indents_def marker_text_eq)

text \<open>
  Claim C4, as the program has it. Every reference is wrapped with first-line indent 0;
  the continuation indent is, when hanging indent is enabled and the marker of the
  reference is not empty, the length of the marker of the last index (the number of
  references) plus one, the same for every reference, and 0 otherwise.
\<close>

theorem add_references_indents:
  "add_references_to_document opts max_chars refs =
     Inr ((if show_title opts
           then [\<lparr>line_text = title_text opts, is_title = True, is_first = None, indent = 0\<rparr>]
           else [])
          @ concat (map (\<lambda>(i, ref).
              place_lines opts
                (wrap_text
                   (if marker_text opts (int i) \<noteq> []
                    then marker_text opts (int i) @ str '' '' @ ref else ref)
                   max_chars 0
                   (if hanging_indent opts \<and> marker_text opts (int i) \<noteq> []
                    then int (length (marker_text opts (int (length refs)))) + 1 else 0)))
            (enumerate 1 refs)))"
proof -
  let ?mc = "int (length (marker_text opts (int (length refs)))) + 1"
  have "collect (\<lambda>(i, ref). reference_lines opts max_chars ?mc (int i) ref) (enumerate 1 refs)
      = Inr (concat (map (\<lambda>(i, ref).
              place_lines opts
                (wrap_text
                   (if marker_text opts (int i) \<noteq> []
                    then marker_text opts (int i) @ str '' '' @ ref else ref)
                   max_chars 0
                   (if hanging_indent opts \<and> marker_text opts (int i) \<noteq> [] then ?mc else 0)))
            (enumerate 1 refs)))"
    by (rule collect_map) (auto simp: reference_lines_eq)
  then show ?thesis
    by (simp add: add_references_to_document_def marker_text_eq Let_def)
qed

lemma wrap_eval:
  "wrap_text (str ''[1] aaaa bb c'') 8 0 5 = map str [''[1] aaaa'', ''bb'', ''c'']"
  "wrap_text (str ''[1] aaaa bb c'') 8 0 4 = map str [''[1] aaaa'', ''bb c'']"
  by (simp_all add: wrap_text_def flush_def wrap_step_def py_split_def is_space_def str_def)

lemma marker_numeric_eval:
  "get_numbering_marker (str ''numeric'') 1 = Inr (str ''[1]'')"
  "get_numbering_marker (str ''numeric'') 10 = Inr (str ''[10]'')"
  by (simp_all add: get_numbering_marker_def bracketed_def str_int_def str_nat.simps str_def)

text \<open>
  The continuation indent is not taken from the marker of the reference itself: of ten
  numbered references the first has a marker of three characters and is wrapped with
  the indent five, which changes its lines.
\<close>

theorem hanging_indent_per_entry_counterexample:
  "hanging_indent default_options
   \<and> numbering_style default_options = str ''numeric''
   \<and> get_numbering_marker (str ''numeric'') 1 = Inr (str ''[1]'')
   \<and> get_numbering_marker (str ''numeric'') 10 = Inr (str ''[10]'')
   \<and> text_and_indents default_options (int (length (str ''[10]'')) + 1) 1 (str ''aaaa bb c'')
       = Inr (str ''[1] aaaa bb c'', 0, 5)
   \<and> int (length (str ''[1]'')) + 1 = 4
   \<and> reference_lines default_options 8 (int (length (str ''[10]'')) + 1) 1 (str ''aaaa bb c'')
       = Inr (place_lines default_options (map str [''[1] aaaa'', ''bb'', ''c'']))
   \<and> wrap_text (str ''[1] aaaa bb c'') 8 0 (int (length (str ''[1]'')) + 1)
       = map str [''[1] aaaa'', ''bb c'']"
proof -
  have j: "str ''[1]'' @ str '' '' @ str ''aaaa bb c'' = str ''[1] aaaa bb c''"
    by (simp add: str_def)
  show ?thesis
    by (simp add: default_options_def marker_numeric_eval text_and_indents_def
        reference_lines_def j wrap_eval)
qed


theorem add_references_indents_witness:
  "map_sum id (map (\<lambda>l. (line_text l, indent l)))
     (add_references_to_document (default_options\<lparr>show_title := False\<rparr>) 8
        [str ''aaaa bb c'', str ''x''])
   = Inr [(str ''[1] aaaa'', 0), (str ''bb c'', 20), (str ''[2] x'', 0)]"
proof -
  let ?o = "default_options\<lparr>show_title := False\<rparr>"
  have m: "marker_text ?o 1 = str ''[1]''" "marker_text ?o 2 = str ''[2]''"
    by (simp_all add: marker_text_def default_options_def get_numbering_marker_def bracketed_def
        str_int_def str_nat.simps str_def)
  have w: "wrap_text (str ''[1]'' @ str '' '' @ str ''aaaa bb c'') 8 0 4
        = map str [''[1] aaaa'', ''bb c'']"
    "wrap_text (str ''[2]'' @ str '' '' @ str ''x'') 8 0 4 = [str ''[2] x'']"
    by (simp_all add: wrap_text_def flush_def wrap_step_def py_split_def is_space_def str_def)
  have e: "enumerate 1 [str ''aaaa bb c'', str ''x''] = [(Suc 0, str ''aaaa bb c''), (2, str ''x'')]"
    by (simp add: numeral_2_eq_2)
  have o: "hanging_indent ?o" "\<not> show_title ?o" "indent_size ?o = 20"
    by (simp_all add: default_options_def)
  have "add_references_to_document ?o 8 [str ''aaaa bb c'', str ''x'']
      = Inr (place_lines ?o (map str [''[1] aaaa'', ''bb c'']) @ place_lines ?o [str ''[2] x''])"
    unfolding add_references_indents e
    by (simp add: m o w)
  then show ?thesis
    by (simp add: place_lines_def o)
qed

section \<open>The parsers: the keys of the fields, and exceptions\<close>

lemma for_each_inv:
  assumes "for_each body st xs = Inr st'" "P st"
    and "\<And>s x s'. P s \<Longrightarrow> x \<in> set xs \<Longrightarrow> body s x = Inr s' \<Longrightarrow> P s'"
  shows "P st'"
  using assms
proof (induction xs arbitrary: st)
  case Nil
  then show ?case by simp
next
  case (Cons x xs)
  from Cons.prems(1) obtain s1 where b: "body st x = Inr s1" and r: "for_each body s1 xs = Inr st'"
    by (auto split: sum.splits)
  have "P s1"
    using Cons.prems(2) b Cons.prems(3) [of st x s1] by simp
  moreover have "\<And>s y s'. P s \<Longrightarrow> y \<in> set xs \<Longrightarrow> body s y = Inr s' \<Longrightarrow> P s'"
    using Cons.prems(3) by (meson list.set_intros(2))
  ultimately show ?case
    using Cons.IH [OF r] by blast
qed

lemma keys_ok_Nil: "keys_ok []"
  by (simp add: keys_ok_def)

lemma keys_ok_set: "k \<in> schema \<Longrightarrow> keys_ok flds \<Longrightarrow> keys_ok (dict_set flds k v)"
  by (auto simp: keys_ok_def dict_set_def dom_update)

lemma schema_names:
  "str ''author'' \<in> schema" "str ''title'' \<in> schema" "str ''year'' \<in> schema"
  "str ''journal'' \<in> schema" "str ''volume'' \<in> schema" "str ''number'' \<in> schema"
  "str ''pages'' \<in> schema" "str ''publisher'' \<in> schema"
  by (simp_all add: schema_def)

lemma ris_line_keys:
  "ris_line (flds, ty) line = Inr (flds', ty') \<Longrightarrow> keys_ok flds \<Longrightarrow> keys_ok flds'"
  by (auto simp: ris_line_def Let_def keys_ok_set schema_names split: if_splits list.splits)

lemma endnote_line_keys:
  "endnote_line (flds, ty) line = Inr (flds', ty') \<Longrightarrow> keys_ok flds \<Longrightarrow> keys_ok flds'"
  by (auto simp: endnote_line_def Let_def keys_ok_set schema_names split: if_splits sum.splits)

lemma append_entry_schema:
  "schema_only entries \<Longrightarrow> keys_ok flds \<Longrightarrow> schema_only (append_entry entries (flds, ty))"
  by (auto simp: schema_only_def append_entry_def keys_ok_def)

lemma lines_keys:
  assumes "for_each body ([], ty0) ls = Inr (flds, ty)"
    and "\<And>f t l f' t'. body (f, t) l = Inr (f', t') \<Longrightarrow> keys_ok f \<Longrightarrow> keys_ok f'"
  shows "keys_ok flds"
proof -
  have "keys_ok (fst (flds, ty))"
    by (rule for_each_inv [OF assms(1), where P = "\<lambda>s. keys_ok (fst s)"])
      (auto simp: keys_ok_Nil dest: assms(2))
  then show ?thesis by simp
qed

lemma ris_record_schema:
  assumes r: "ris_record entries record = Inr entries'" and s: "schema_only entries"
  shows "schema_only entries'"
proof (cases "py_strip record = []")
  case True
  then show ?thesis
    using r s by (simp add: ris_record_def)
next
  case False
  then obtain flds ty where
    f: "for_each ris_line ([], str ''article'') (py_split_sep record newline) = Inr (flds, ty)"
    and e: "entries' = append_entry entries (flds, ty)"
    using r by (auto simp: ris_record_def split: sum.splits)
  have "keys_ok flds"
    using f by (rule lines_keys) (rule ris_line_keys)
  then show ?thesis
    unfolding e using s by (intro append_entry_schema)
qed

lemma endnote_record_schema:
  assumes r: "endnote_record entries record = Inr entries'" and s: "schema_only entries"
  shows "schema_only entries'"
proof (cases "py_strip record = []")
  case True
  then show ?thesis
    using r s by (simp add: endnote_record_def)
next
  case False
  then obtain flds ty where
    f: "for_each endnote_line ([], str ''article'') (py_split_sep record newline) = Inr (flds, ty)"
    and e: "entries' = append_entry entries (flds, ty)"
    using r by (auto simp: endnote_record_def split: sum.splits)
  have "keys_ok flds"
    using f by (rule lines_keys) (rule endnote_line_keys)
  then show ?thesis
    unfolding e using s by (intro append_entry_schema)
qed

lemma schema_only_Nil: "schema_only []"
  by (simp add: schema_only_def)

lemma parse_ris_schema: "parse_ris file = Inr es \<Longrightarrow> schema_only es"
proof -
  assume a: "parse_ris file = Inr es"
  show ?thesis
  proof (cases "ris_body file")
    case (Inl e)
    then show ?thesis
      using a by (auto simp: parse_ris_def try_except_def schema_only_Nil)
  next
    case (Inr es')
    then obtain content where "for_each ris_record [] (py_split_sep content (str ''ER  -'')) = Inr es"
      using a by (auto simp: parse_ris_def try_except_def ris_body_def split: sum.splits)
    then show ?thesis
      by (rule for_each_inv) (auto simp: schema_only_Nil dest: ris_record_schema)
  qed
qed

lemma parse_endnote_schema: "parse_endnote file = Inr es \<Longrightarrow> schema_only es"
proof -
  assume a: "parse_endnote file = Inr es"
  show ?thesis
  proof (cases "endnote_body file")
    case (Inl e)
    then show ?thesis
      using a by (auto simp: parse_endnote_def try_except_def schema_only_Nil)
  next
    case (Inr es')
    then obtain content where "for_each endnote_record [] (re_split blank_line_pattern content) = Inr es"
      using a by (auto simp: parse_endnote_def try_except_def endnote_body_def split: sum.splits)
    then show ?thesis
      by (rule for_each_inv) (auto simp: schema_only_Nil dest: endnote_record_schema)
  qed
qed

lemma json_authors_keys:
  "json_authors other item flds = Inr flds' \<Longrightarrow> keys_ok flds \<Longrightarrow> keys_ok flds'"
  by (auto simp: json_authors_def keys_ok_set schema_names split: sum.splits bool.splits)

lemma json_field_keys:
  "json_field other item flds names = Inr flds' \<Longrightarrow> names \<in> set field_map \<Longrightarrow> keys_ok flds
   \<Longrightarrow> keys_ok flds'"
  by (auto simp: json_field_def field_map_def keys_ok_set schema_names
      split: sum.splits bool.splits prod.splits)

lemma json_year_keys:
  "json_year other item flds = Inr flds' \<Longrightarrow> keys_ok flds \<Longrightarrow> keys_ok flds'"
  by (auto simp: json_year_def keys_ok_set schema_names
      split: sum.splits bool.splits if_splits pyval.splits)

lemma json_item_schema:
  assumes "json_item other entries item = Inr entries'" "schema_only entries"
  shows "schema_only entries'"
proof -
  from assms(1) obtain flds1 flds2 flds ty k where
    1: "json_authors other item [] = Inr flds1"
    and 2: "for_each (json_field other item) flds1 field_map = Inr flds2"
    and 3: "json_year other item flds2 = Inr flds"
    and e: "entries' = entries @ [\<lparr>etype = ty, ekey = k, efields = flds\<rparr>]"
    by (auto simp: json_item_def Let_def split: sum.splits)
  have "keys_ok flds1"
    using 1 by (rule json_authors_keys) (rule keys_ok_Nil)
  with 2 have "keys_ok flds2"
    by (rule for_each_inv) (auto dest: json_field_keys)
  with 3 have "keys_ok flds"
    by (rule json_year_keys)
  then show ?thesis
    using assms(2) e by (auto simp: schema_only_def keys_ok_def)
qed

lemma parse_json_schema: "parse_json other loaded = Inr es \<Longrightarrow> schema_only es"
proof -
  assume a: "parse_json other loaded = Inr es"
  show ?thesis
  proof (cases "json_body other loaded")
    case (Inl e)
    then show ?thesis
      using a by (auto simp: parse_json_def try_except_def schema_only_Nil)
  next
    case (Inr es')
    then obtain items where "for_each (json_item other) [] items = Inr es"
      using a by (auto simp: parse_json_def try_except_def json_body_def Let_def split: sum.splits)
    then show ?thesis
      by (rule for_each_inv) (auto simp: schema_only_Nil dest: json_item_schema)
  qed
qed

lemma foldl_bibtex_field_keys:
  "fst ` set (foldl bibtex_field flds ms) = fst ` set flds \<union> (\<lambda>m. py_lower (group m 1)) ` set ms"
  by (induction ms arbitrary: flds) (auto simp: bibtex_field_def Let_def dict_set_def dom_update)

lemma bibtex_entry_keys:
  "fst ` set (efields (bibtex_entry m))
     = (\<lambda>f. py_lower (group f 1)) ` set (finditer field_pattern (group m 3))"
  by (simp add: bibtex_entry_def Let_def foldl_bibtex_field_keys)

text \<open>
  Claim C1, as the program has it. The entries of \<open>parse_ris\<close>, \<open>parse_json\<close> and
  \<open>parse_endnote\<close> have only fields of the eight-field schema. \<open>parse_bibtex\<close>
  filters nothing: the fields of an entry are exactly the names that the field pattern
  matches, in lower case.
\<close>

theorem parsers_schema_keys:
  "(parse_ris file = Inr es \<longrightarrow> schema_only es)
   \<and> (parse_json other loaded = Inr es \<longrightarrow> schema_only es)
   \<and> (parse_endnote file = Inr es \<longrightarrow> schema_only es)
   \<and> fst ` set (efields (bibtex_entry m))
       = (\<lambda>f. py_lower (group f 1)) ` set (finditer field_pattern (group m 3))"
  using parse_ris_schema parse_json_schema parse_endnote_schema bibtex_entry_keys
  by blast

text \<open>
  The BibTeX parser keeps a field that is not in the schema.
\<close>

theorem parse_bibtex_keeps_month_counterexample:
  "parse_bibtex (Inr (str ''@article{k, month={jan}}''))
     = Inr [\<lparr>etype = PStr (str ''article''), ekey = PStr (str ''k''),
             efields = [(str ''month'', str ''jan'')]\<rparr>]
   \<and> str ''month'' \<notin> schema"
proof -
  have "parse_bibtex (Inr (str ''@article{k, month={jan}}''))
     = Inr [\<lparr>etype = PStr (str ''article''), ekey = PStr (str ''k''),
             efields = [(str ''month'', str ''jan'')]\<rparr>]"
    by (simp add: parse_bibtex_def try_except_def bibtex_body_def finditer_def entry_pattern_def
        seqs_def is_word_def is_space_def bibtex_entry_def group_def field_pattern_def
        bibtex_field_def brace_pattern_def re_sub_group1_def dict_set_def py_lower_def
        lower_char_def py_strip_def str_def)
  moreover have "str ''month'' \<notin> schema"
    by (simp add: schema_def)
  ultimately show ?thesis
    by simp
qed

lemma ris_eval:
  "parse_ris (Inr (str ''TI  - T'' @ newline @ str ''DO  - 1''))
     = Inr [\<lparr>etype = PStr (str ''article''), ekey = PStr (str ''T''),
             efields = [(str ''title'', str ''T'')]\<rparr>]"
  by (simp add: parse_ris_def try_except_def ris_body_def py_split_sep_def ris_record_def
      ris_line_def py_split_first_def append_entry_def dict_set_def dict_get_def dict_has_def
      py_strip_def is_space_def newline_def prefix_def str_def)

lemma endnote_eval:
  "parse_endnote (Inr (str ''%T T'' @ newline @ str ''%X 1''))
     = Inr [\<lparr>etype = PStr (str ''article''), ekey = PStr (str ''T''),
             efields = [(str ''title'', str ''T'')]\<rparr>]"
  by (simp add: parse_endnote_def try_except_def endnote_body_def re_split_def
      blank_line_pattern_def seqs_def py_split_sep_def endnote_record_def
      endnote_line_def py_index_def append_entry_def dict_set_def dict_get_def dict_has_def
      py_strip_def is_space_def newline_def prefix_def str_def)

lemma json_eval:
  "parse_json other (Inr (PList [PDict [(str ''title'', PStr (str ''T'')), (str ''DOI'', PInt 1)]]))
     = Inr [\<lparr>etype = PStr (str ''article''), ekey = PStr (str ''T''),
             efields = [(str ''title'', str ''T'')]\<rparr>]"
  by (simp add: parse_json_def try_except_def json_body_def is_dict_def py_iter_def json_item_def
      json_authors_def py_in_def field_map_def json_field_def py_item_def json_year_def
      py_get_def py_str_def dict_set_def dict_get_def dict_has_def prefix_def)
    (simp add: str_def prefix_def)

theorem parsers_schema_keys_witness:
  "parse_ris (Inr (str ''TI  - T'' @ newline @ str ''DO  - 1''))
     = Inr [\<lparr>etype = PStr (str ''article''), ekey = PStr (str ''T''),
             efields = [(str ''title'', str ''T'')]\<rparr>]
   \<and> parse_endnote (Inr (str ''%T T'' @ newline @ str ''%X 1''))
     = Inr [\<lparr>etype = PStr (str ''article''), ekey = PStr (str ''T''),
             efields = [(str ''title'', str ''T'')]\<rparr>]
   \<and> parse_json (\<lambda>v. [])
       (Inr (PList [PDict [(str ''title'', PStr (str ''T'')), (str ''DOI'', PInt 1)]]))
     = Inr [\<lparr>etype = PStr (str ''article''), ekey = PStr (str ''T''),
             efields = [(str ''title'', str ''T'')]\<rparr>]
   \<and> schema_only [\<lparr>etype = PStr (str ''article''), ekey = PStr (str ''T''),
             efields = [(str ''title'', str ''T'')]\<rparr>]
   \<and> fst ` set (efields (bibtex_entry [(3, str ''month={jan}'')])) = {str ''month''}"
proof -
  let ?E = "[\<lparr>etype = PStr (str ''article''), ekey = PStr (str ''T''),
             efields = [(str ''title'', str ''T'')]\<rparr>]"
  have "schema_only ?E"
    using parsers_schema_keys [of "Inr (str ''TI  - T'' @ newline @ str ''DO  - 1'')" ?E] ris_eval
    by blast
  moreover have "schema_only ?E"
    using parsers_schema_keys [of "Inr (str ''%T T'' @ newline @ str ''%X 1'')" ?E]
      endnote_eval
    by blast
  moreover have "schema_only ?E"
    using parsers_schema_keys [of _ ?E "\<lambda>v. []"
        "Inr (PList [PDict [(str ''title'', PStr (str ''T'')), (str ''DOI'', PInt 1)]])"]
      json_eval
    by blast
  moreover have "fst ` set (efields (bibtex_entry [(3, str ''month={jan}'')])) = {str ''month''}"
    by (simp add: finditer_def seqs_def is_word_def is_space_def bibtex_entry_def group_def
        field_pattern_def bibtex_field_def brace_pattern_def re_sub_group1_def dict_set_def
        py_lower_def lower_char_def py_strip_def str_def)
  ultimately show ?thesis
    using ris_eval endnote_eval json_eval by simp
qed

text \<open>
  Claim C8. Each parser returns a list and never raises: the list is empty when the body
  of its \<open>try\<close> statement raises, as it does when the file cannot be read or decoded
  or is not JSON, and on a content that makes the body itself raise.
\<close>

theorem parsers_never_raise:
  "parse_bibtex file = Inr (case bibtex_body file of Inl e \<Rightarrow> [] | Inr es \<Rightarrow> es)
   \<and> parse_ris file = Inr (case ris_body file of Inl e \<Rightarrow> [] | Inr es \<Rightarrow> es)
   \<and> parse_json other loaded = Inr (case json_body other loaded of Inl e \<Rightarrow> [] | Inr es \<Rightarrow> es)
   \<and> parse_endnote file = Inr (case endnote_body file of Inl e \<Rightarrow> [] | Inr es \<Rightarrow> es)
   \<and> parse_bibtex (Inl x) = Inr [] \<and> parse_ris (Inl x) = Inr []
   \<and> parse_json other (Inl x) = Inr [] \<and> parse_endnote (Inl x) = Inr []
   \<and> parse_json other (Inr (PList [PInt 1])) = Inr []
   \<and> parse_endnote (Inr (str ''%T T'' @ newline @ str ''%'')) = Inr []"
proof -
  have t: "try_except body (\<lambda>e. Inr []) = Inr (case body of Inl e \<Rightarrow> [] | Inr es \<Rightarrow> es)"
    for body :: "exn + entry list"
    by (simp add: try_except_def split: sum.split)
  have j: "parse_json other (Inr (PList [PInt 1])) = Inr []"
    by (simp add: parse_json_def try_except_def json_body_def is_dict_def py_iter_def json_item_def
        json_authors_def py_in_def)
  have n: "parse_endnote (Inr (str ''%T T'' @ newline @ str ''%'')) = Inr []"
    by (simp add: parse_endnote_def try_except_def endnote_body_def re_split_def
        blank_line_pattern_def seqs_def py_split_sep_def endnote_record_def
        endnote_line_def py_index_def append_entry_def dict_set_def dict_get_def dict_has_def
        py_strip_def is_space_def newline_def prefix_def str_def)
  have g: "parse_bibtex f = Inr (case bibtex_body f of Inl e \<Rightarrow> [] | Inr es \<Rightarrow> es)"
    "parse_ris f = Inr (case ris_body f of Inl e \<Rightarrow> [] | Inr es \<Rightarrow> es)"
    "parse_json other l = Inr (case json_body other l of Inl e \<Rightarrow> [] | Inr es \<Rightarrow> es)"
    "parse_endnote f = Inr (case endnote_body f of Inl e \<Rightarrow> [] | Inr es \<Rightarrow> es)"
    for f l
    by (simp_all only: parse_bibtex_def parse_ris_def parse_json_def parse_endnote_def t)
  have x: "parse_bibtex (Inl x) = Inr []" "parse_ris (Inl x) = Inr []"
    "parse_json other (Inl x) = Inr []" "parse_endnote (Inl x) = Inr []"
    by (simp_all add: g bibtex_body_def ris_body_def json_body_def endnote_body_def)
  show ?thesis
    by (intro conjI g x j n)
qed

text \<open>The BibTeX entry whose author field holds no name, and what the parser makes of it.\<close>

lemma bibtex_author_without_name:
  "parse_bibtex (Inr (str ''@article{k, author={,}, title={T}}''))
     = Inr [article ''k'' [(''author'', '',''), (''title'', ''T'')]]"
  by (simp add: parse_bibtex_def try_except_def bibtex_body_def finditer_def entry_pattern_def
      seqs_def is_word_def is_space_def bibtex_entry_def group_def field_pattern_def
      bibtex_field_def brace_pattern_def re_sub_group1_def dict_set_def py_lower_def
      lower_char_def py_strip_def article_def str_def)

end
